theory Spec2Isabelle
  imports Complex_Main "HOL-Library.Sublist"
begin

section \<open>Parsed documents\<close>

text \<open>
  The validator walks whatever \<^verbatim>\<open>JSON.parse\<close> returns (\<^verbatim>\<open>const quiz: any\<close>), so the
  model works on generic JSON values. A number is an IEEE double; it is modelled by the
  rational that its shortest decimal representation denotes (the decimal that
  \<^verbatim>\<open>String(x)\<close> prints), or one of the two infinities that \<^verbatim>\<open>JSON.parse\<close> yields on
  overflow. That reading keeps the order and the integers, and \<^verbatim>\<open>-0\<close> is \<open>0\<close>: the
  code cannot tell them apart. An object is the list of its own properties, each key once.
\<close>

datatype jsnum = Finite rat | PosInfinity | NegInfinity

datatype json =
    JNull
  | JBool bool
  | JNum jsnum
  | JStr string
  | JArr "json list"
  | JObj "(string \<times> json) list"

text \<open>
  Reading a property gives a value or \<^verbatim>\<open>undefined\<close> (\<open>None\<close>). Only the keys
  \<^verbatim>\<open>metadata\<close>, \<^verbatim>\<open>questions\<close>, \<^verbatim>\<open>title\<close>, \<^verbatim>\<open>description\<close>, \<^verbatim>\<open>version\<close>, \<^verbatim>\<open>author\<close>, \<^verbatim>\<open>type\<close>,
  \<^verbatim>\<open>text\<close>, \<^verbatim>\<open>options\<close> and \<^verbatim>\<open>correct_answers\<close> are ever read, and none of them is
  inherited from a prototype, so a primitive or an array has none of them. Reading a
  property of \<^verbatim>\<open>null\<close> raises; the callers below test for \<^verbatim>\<open>null\<close> before they read.
\<close>

fun getProp :: "json \<Rightarrow> string \<Rightarrow> json option" where
  "getProp (JObj kvs) k = map_of kvs k"
| "getProp _ k = None"

text \<open>\<^verbatim>\<open>!x\<close> is \<open>\<not> truthy x\<close>.\<close>

fun truthy :: "json option \<Rightarrow> bool" where
  "truthy None = False"
| "truthy (Some JNull) = False"
| "truthy (Some (JBool b)) = b"
| "truthy (Some (JNum n)) = (n \<noteq> Finite 0)"
| "truthy (Some (JStr s)) = (s \<noteq> [])"
| "truthy (Some (JArr xs)) = True"
| "truthy (Some (JObj kvs)) = True"

text \<open>\<^verbatim>\<open>Array.isArray(x)\<close> and \<^verbatim>\<open>typeof x === 'string'\<close>.\<close>

fun isArray :: "json option \<Rightarrow> bool" where
  "isArray (Some (JArr xs)) = True"
| "isArray _ = False"

fun isString :: "json option \<Rightarrow> bool" where
  "isString (Some (JStr s)) = True"
| "isString _ = False"

text \<open>The elements of a value that \<open>isArray\<close> has accepted.\<close>

fun elements :: "json option \<Rightarrow> json list" where
  "elements (Some (JArr xs)) = xs"
| "elements _ = []"

text \<open>\<^verbatim>\<open>x < 0\<close> and \<^verbatim>\<open>x >= n\<close> on a number \<open>x\<close> and an array length \<open>n\<close>.\<close>

fun lessZero :: "jsnum \<Rightarrow> bool" where
  "lessZero (Finite r) = (r < 0)"
| "lessZero PosInfinity = False"
| "lessZero NegInfinity = True"

fun atLeastLength :: "jsnum \<Rightarrow> nat \<Rightarrow> bool" where
  "atLeastLength (Finite r) n = (of_nat n \<le> r)"
| "atLeastLength PosInfinity n = True"
| "atLeastLength NegInfinity n = False"

text \<open>
  \<^verbatim>\<open>typeof answerIndex !== 'number' || answerIndex < 0 || answerIndex >= question.options.length\<close>,
  with \<open>n\<close> the length.
\<close>

fun invalidIndex :: "json \<Rightarrow> nat \<Rightarrow> bool" where
  "invalidIndex (JNum x) n = (lessZero x \<or> atLeastLength x n)"
| "invalidIndex _ n = True"

section \<open>Exceptions and string conversion\<close>

text \<open>
  Everything \<^verbatim>\<open>validateQuizFile\<close> does happens inside one \<^verbatim>\<open>try\<close> block, so an
  exception raised anywhere in it ends up in the \<^verbatim>\<open>catch\<close>. Three places can raise:
  \<^verbatim>\<open>JSON.parse\<close> (a SyntaxError), reading a property of \<^verbatim>\<open>null\<close> and converting an
  object to a string inside a template literal (both a TypeError, with the messages
  of V8, the engine the editor runs on).
\<close>

datatype js_error = SyntaxError string | TypeError string

fun errorMessage :: "js_error \<Rightarrow> string" where
  "errorMessage (SyntaxError m) = m"
| "errorMessage (TypeError m) = m"

definition cannotReadNull :: "string \<Rightarrow> js_error" where
  "cannotReadNull k = TypeError (''Cannot read properties of null (reading '' @ [CHR 0x27] @ k @ [CHR 0x27] @ '')'')"

definition cannotConvert :: js_error where
  "cannotConvert = TypeError ''Cannot convert object to primitive value''"

subsection \<open>Numbers in template literals\<close>

definition digitChar :: "nat \<Rightarrow> char" where
  "digitChar d = ''0123456789'' ! d"

fun natToString :: "nat \<Rightarrow> string" where
  "natToString n =
     (if n < 10 then [digitChar n] else natToString (n div 10) @ [digitChar (n mod 10)])"

declare natToString.simps [simp del]

definition intToString :: "int \<Rightarrow> string" where
  "intToString i = (if i < 0 then CHR ''-'' # natToString (nat (- i)) else natToString (nat i))"

text \<open>
  The digits after the decimal point of a fraction \<open>0 \<le> f < 1\<close>, by long division. The
  fuel bounds the number of digits; no double needs more than 1074.
\<close>

fun fractionDigits :: "nat \<Rightarrow> rat \<Rightarrow> string" where
  "fractionDigits 0 f = []"
| "fractionDigits (Suc fuel) f =
     (if f = 0 then []
      else (let d = nat \<lfloor>f * 10\<rfloor> in digitChar d # fractionDigits fuel (f * 10 - of_nat d)))"

definition stripTrailingZeros :: "string \<Rightarrow> string" where
  "stripTrailingZeros s = rev (dropWhile (\<lambda>c. c = CHR ''0'') (rev s))"

text \<open>
  \<^verbatim>\<open>Number::toString\<close> of ECMAScript on a positive number \<open>x\<close>. With \<open>s\<close> the
  significant digits (\<open>k\<close> of them) and \<open>n\<close> the decimal exponent, \<open>x = 0.s \<times> 10\<^sup>n\<close>, the
  result is the plain digits for \<open>k \<le> n \<le> 21\<close> (an integer below \<open>10\<^sup>2\<^sup>1\<close>), digits with a
  point for \<open>0 < n \<le> 21\<close>, \<open>0.00s\<close> for \<open>-6 < n \<le> 0\<close> and exponent notation otherwise.
\<close>

definition positiveToString :: "rat \<Rightarrow> string" where
  "positiveToString x =
     (if of_int \<lfloor>x\<rfloor> = x \<and> x < 10 ^ 21 then natToString (nat \<lfloor>x\<rfloor>)
      else
        (let ip = nat \<lfloor>x\<rfloor>;
             fracDs = fractionDigits 1100 (x - of_nat ip);
             intDs = (if ip = 0 then [] else natToString ip);
             zeros = (if ip = 0 then length (takeWhile (\<lambda>c. c = CHR ''0'') fracDs) else 0);
             n = (if ip = 0 then - int zeros else int (length intDs));
             s = stripTrailingZeros (drop zeros (intDs @ fracDs));
             k = int (length s)
         in if 0 < n \<and> n \<le> 21 then take (nat n) s @ ''.'' @ drop (nat n) s
            else if - 6 < n \<and> n \<le> 0 then ''0.'' @ replicate (nat (- n)) (CHR ''0'') @ s
            else (let e = n - 1;
                      ex = [CHR ''e'', if e < 0 then CHR ''-'' else CHR ''+'']
                             @ natToString (nat \<bar>e\<bar>)
                  in if k = 1 then s @ ex else take 1 s @ ''.'' @ drop 1 s @ ex)))"

fun numberToString :: "jsnum \<Rightarrow> string" where
  "numberToString PosInfinity = ''Infinity''"
| "numberToString NegInfinity = ''-Infinity''"
| "numberToString (Finite r) =
     (if r = 0 then ''0''
      else if r < 0 then CHR ''-'' # positiveToString (- r)
      else positiveToString r)"

subsection \<open>Any value in a template literal\<close>

text \<open>
  \<^verbatim>\<open>`${v}`\<close> converts \<open>v\<close> with ToString. An array is joined with commas
  (\<^verbatim>\<open>Array.prototype.join\<close>: \<^verbatim>\<open>null\<close> elements give the empty string). An object gives
  \<^verbatim>\<open>[object Object]\<close> through \<^verbatim>\<open>Object.prototype.toString\<close>, unless it has an own
  property \<^verbatim>\<open>toString\<close>: a parsed value is never callable, the inherited \<^verbatim>\<open>valueOf\<close>
  (or an own one) yields no primitive either, and the conversion raises a TypeError.
\<close>

fun toStringJS :: "json \<Rightarrow> js_error + string"
  and joinJS :: "json list \<Rightarrow> js_error + string"
where
  "toStringJS JNull = Inr ''null''"
| "toStringJS (JBool b) = Inr (if b then ''true'' else ''false'')"
| "toStringJS (JNum n) = Inr (numberToString n)"
| "toStringJS (JStr s) = Inr s"
| "toStringJS (JArr xs) = joinJS xs"
| "toStringJS (JObj kvs) =
     (if map_of kvs ''toString'' \<noteq> None then Inl cannotConvert else Inr ''[object Object]'')"
| "joinJS [] = Inr ''''"
| "joinJS (x # xs) =
     (case (if x = JNull then Inr '''' else toStringJS x) of
        Inl e \<Rightarrow> Inl e
      | Inr s \<Rightarrow>
          (if xs = [] then Inr s
           else (case joinJS xs of Inl e \<Rightarrow> Inl e | Inr t \<Rightarrow> Inr (s @ '','' @ t))))"

text \<open>The same for the result of a property read: \<^verbatim>\<open>`${undefined}`\<close> is \<^verbatim>\<open>undefined\<close>.\<close>

fun templateString :: "json option \<Rightarrow> js_error + string" where
  "templateString None = Inr ''undefined''"
| "templateString (Some v) = toStringJS v"

section \<open>Diagnostics\<close>

text \<open>
  A \<^verbatim>\<open>vscode.Diagnostic\<close> with its message, severity and source. Its range (found by a
  regular-expression search over the text, or the origin) is left out: nothing below
  speaks about positions.
\<close>

datatype severity = Error | Warning

record diagnostic =
  message :: string
  severity :: severity
  source :: string

text \<open>
  \<^verbatim>\<open>new vscode.Diagnostic(range, msg, sev)\<close> followed by
  \<^verbatim>\<open>diagnostic.source = 'quiz-validator'\<close>, and \<^verbatim>\<open>diagnostics.push(d)\<close>.
\<close>

definition validatorDiagnostic :: "string \<Rightarrow> severity \<Rightarrow> diagnostic" where
  "validatorDiagnostic msg sev = \<lparr>message = msg, severity = sev, source = ''quiz-validator''\<rparr>"

definition push :: "diagnostic list \<Rightarrow> diagnostic \<Rightarrow> diagnostic list" where
  "push diagnostics d = diagnostics @ [d]"

text \<open>The text \<^verbatim>\<open>`Question ${index + 1}: `\<close> that starts every message about a question.\<close>

definition questionLabel :: "nat \<Rightarrow> string" where
  "questionLabel index = ''Question '' @ natToString (index + 1) @ '': ''"

section \<open>validateMetadata\<close>

definition requiredFields :: "string list" where
  "requiredFields = [''title'', ''description'', ''version'', ''author'']"

text \<open>The body of the loop over \<open>requiredFields\<close>.\<close>

definition validateMetadataField :: "json \<Rightarrow> diagnostic list \<Rightarrow> string \<Rightarrow> diagnostic list" where
  "validateMetadataField metadata diagnostics field =
     (if \<not> truthy (getProp metadata field) then
        push diagnostics
          (validatorDiagnostic (''Missing required property: metadata.'' @ field) Error)
      else if \<not> isString (getProp metadata field) then
        push diagnostics
          (validatorDiagnostic (''metadata.'' @ field @ '' must be a string'') Error)
      else diagnostics)"

definition validateMetadata :: "json \<Rightarrow> diagnostic list \<Rightarrow> diagnostic list" where
  "validateMetadata metadata diagnostics =
     foldl (validateMetadataField metadata) diagnostics requiredFields"

section \<open>validateQuestions\<close>

definition supportedTypes :: "string list" where
  "supportedTypes = [''multiple_choice'', ''single_choice'', ''true_false'']"

text \<open>\<^verbatim>\<open>['multiple_choice', 'single_choice', 'true_false'].includes(question.type)\<close>\<close>

fun includesType :: "json option \<Rightarrow> bool" where
  "includesType (Some (JStr s)) = (s \<in> set supportedTypes)"
| "includesType _ = False"

text \<open>\<^verbatim>\<open>question.type === t\<close> for a string literal \<open>t\<close>.\<close>

definition typeIs :: "json option \<Rightarrow> string \<Rightarrow> bool" where
  "typeIs qtype t = (qtype = Some (JStr t))"

text \<open>
  \<^verbatim>\<open>${question.type}\<close> in the messages of the type-specific block: there the type has
  passed \<^verbatim>\<open>includes\<close>, so it is one of the three strings and converts to itself.
\<close>

fun typeName :: "json option \<Rightarrow> string" where
  "typeName (Some (JStr t)) = t"
| "typeName _ = []"

text \<open>
  The callback of \<^verbatim>\<open>questions.forEach\<close>, block by block. A result \<open>(Some e, ds)\<close> says
  that \<open>e\<close> was raised after the diagnostics \<open>ds\<close> had been pushed.
\<close>

text \<open>\<^verbatim>\<open>// Validate question type\<close>\<close>

definition validateQuestionType ::
  "nat \<Rightarrow> json option \<Rightarrow> diagnostic list \<Rightarrow> js_error option \<times> diagnostic list" where
  "validateQuestionType index qtype diagnostics =
     (if \<not> truthy qtype then
        (None, push diagnostics
           (validatorDiagnostic (questionLabel index @ ''Missing required property: type'') Error))
      else if \<not> includesType qtype then
        (case templateString qtype of
           Inl e \<Rightarrow> (Some e, diagnostics)
         | Inr s \<Rightarrow>
             (None, push diagnostics
                (validatorDiagnostic
                   (questionLabel index @ ''Invalid question type '' @ [CHR 0x27] @ s @ [CHR 0x27]
                      @ ''. Supported types: multiple_choice, single_choice, true_false'')
                   Error)))
      else (None, diagnostics))"

text \<open>\<^verbatim>\<open>// Validate question text\<close>\<close>

definition validateQuestionText ::
  "nat \<Rightarrow> json option \<Rightarrow> diagnostic list \<Rightarrow> diagnostic list" where
  "validateQuestionText index qtext diagnostics =
     (if \<not> truthy qtext then
        push diagnostics
          (validatorDiagnostic (questionLabel index @ ''Missing required property: text'') Error)
      else if \<not> isString qtext then
        push diagnostics
          (validatorDiagnostic (questionLabel index @ ''text must be a string'') Error)
      else diagnostics)"

text \<open>\<^verbatim>\<open>// Validate options (required for all question types)\<close>\<close>

definition validateOptions ::
  "nat \<Rightarrow> json option \<Rightarrow> json option \<Rightarrow> diagnostic list \<Rightarrow> diagnostic list" where
  "validateOptions index qtype options diagnostics =
     (if \<not> truthy options then
        push diagnostics
          (validatorDiagnostic (questionLabel index @ ''Missing required property: options'') Error)
      else if \<not> isArray options then
        push diagnostics
          (validatorDiagnostic (questionLabel index @ ''options must be an array'') Error)
      else if typeIs qtype ''true_false'' then
        (if length (elements options) \<noteq> 2 then
           push diagnostics
             (validatorDiagnostic
                (questionLabel index @ ''true_false questions must have exactly 2 options'') Error)
         else diagnostics)
      else if length (elements options) < 2 then
        push diagnostics
          (validatorDiagnostic
             (questionLabel index @ typeName qtype @ '' questions must have at least 2 options'')
             Warning)
      else diagnostics)"

text \<open>
  \<^verbatim>\<open>// Validate correct_answers indices for all types\<close>: the loop
  \<^verbatim>\<open>for (const answerIndex of question.correct_answers)\<close>, with \<open>n\<close> the value of
  \<^verbatim>\<open>question.options.length\<close>.
\<close>

fun validateIndices ::
  "nat \<Rightarrow> nat \<Rightarrow> json list \<Rightarrow> diagnostic list \<Rightarrow> js_error option \<times> diagnostic list" where
  "validateIndices index n [] diagnostics = (None, diagnostics)"
| "validateIndices index n (answerIndex # rest) diagnostics =
     (if invalidIndex answerIndex n then
        (case toStringJS answerIndex of
           Inl e \<Rightarrow> (Some e, diagnostics)
         | Inr s \<Rightarrow>
             validateIndices index n rest
               (push diagnostics
                  (validatorDiagnostic
                     (questionLabel index @ ''correct_answers contains invalid index '' @ s
                        @ ''. Valid range: 0-'' @ intToString (int n - 1))
                     Error)))
      else validateIndices index n rest diagnostics)"

text \<open>\<^verbatim>\<open>// Validate correct_answers (required for all question types)\<close>\<close>

definition validateCorrectAnswers ::
  "nat \<Rightarrow> json option \<Rightarrow> json option \<Rightarrow> json option \<Rightarrow> diagnostic list
     \<Rightarrow> js_error option \<times> diagnostic list" where
  "validateCorrectAnswers index qtype options correct_answers diagnostics =
     (if \<not> truthy correct_answers then
        (None, push diagnostics
           (validatorDiagnostic
              (questionLabel index @ ''Missing required property: correct_answers'') Error))
      else if correct_answers = Some JNull then
        (None, push diagnostics
           (validatorDiagnostic (questionLabel index @ ''correct_answers cannot be null'') Error))
      else if \<not> isArray correct_answers then
        (None, push diagnostics
           (validatorDiagnostic (questionLabel index @ ''correct_answers must be an array'') Error))
      else if length (elements correct_answers) = 0 then
        (None, push diagnostics
           (validatorDiagnostic (questionLabel index @ ''correct_answers cannot be empty'') Error))
      else
        (let diagnostics1 =
               (if typeIs qtype ''single_choice'' \<or> typeIs qtype ''true_false'' then
                  (if length (elements correct_answers) \<noteq> 1 then
                     push diagnostics
                       (validatorDiagnostic
                          (questionLabel index @ typeName qtype
                             @ '' questions must have exactly one correct answer'')
                          Error)
                   else diagnostics)
                else diagnostics)
         in if truthy options \<and> isArray options then
              (case validateIndices index (length (elements options)) (elements correct_answers)
                      diagnostics1 of
                 (Some e, diagnostics2) \<Rightarrow> (Some e, diagnostics2)
               | (None, diagnostics2) \<Rightarrow>
                   (if typeIs qtype ''true_false'' \<and> length (elements correct_answers) = 1 then
                      (let answerIndex = hd (elements correct_answers)
                       in if answerIndex \<noteq> JNum (Finite 0) \<and> answerIndex \<noteq> JNum (Finite 1) then
                            (None, push diagnostics2
                               (validatorDiagnostic
                                  (questionLabel index
                                     @ ''true_false questions must have correct_answers index 0 or 1'')
                                  Error))
                          else (None, diagnostics2))
                    else (None, diagnostics2)))
            else (None, diagnostics1)))"

text \<open>
  The whole callback. Reading \<^verbatim>\<open>question.type\<close> raises when the array element is
  \<^verbatim>\<open>null\<close>.
\<close>

definition validateQuestion ::
  "nat \<Rightarrow> json \<Rightarrow> diagnostic list \<Rightarrow> js_error option \<times> diagnostic list" where
  "validateQuestion index question diagnostics =
     (if question = JNull then (Some (cannotReadNull ''type''), diagnostics)
      else
        (case validateQuestionType index (getProp question ''type'') diagnostics of
           (Some e, diagnostics1) \<Rightarrow> (Some e, diagnostics1)
         | (None, diagnostics1) \<Rightarrow>
             (let diagnostics2 = validateQuestionText index (getProp question ''text'') diagnostics1
              in if includesType (getProp question ''type'') then
                   validateCorrectAnswers index (getProp question ''type'')
                     (getProp question ''options'') (getProp question ''correct_answers'')
                     (validateOptions index (getProp question ''type'')
                        (getProp question ''options'') diagnostics2)
                 else (None, diagnostics2))))"

text \<open>\<^verbatim>\<open>questions.forEach((question, index) => ...)\<close>, from position \<open>index\<close> on.\<close>

fun forEachQuestion ::
  "nat \<Rightarrow> json list \<Rightarrow> diagnostic list \<Rightarrow> js_error option \<times> diagnostic list" where
  "forEachQuestion index [] diagnostics = (None, diagnostics)"
| "forEachQuestion index (question # rest) diagnostics =
     (case validateQuestion index question diagnostics of
        (Some e, diagnostics1) \<Rightarrow> (Some e, diagnostics1)
      | (None, diagnostics1) \<Rightarrow> forEachQuestion (index + 1) rest diagnostics1)"

definition validateQuestions ::
  "json \<Rightarrow> diagnostic list \<Rightarrow> js_error option \<times> diagnostic list" where
  "validateQuestions questions diagnostics =
     (if \<not> isArray (Some questions) then
        (None, push diagnostics (validatorDiagnostic ''questions must be an array'' Error))
      else forEachQuestion 0 (elements (Some questions)) diagnostics)"

section \<open>validateQuizFile\<close>

text \<open>
  An error object of the schema validator, and \<^verbatim>\<open>formatSchemaError\<close>. The compiled
  validator \<^verbatim>\<open>validate\<close> is \<^verbatim>\<open>undefined\<close> (\<open>None\<close>) when no schema could be loaded;
  otherwise a call returns the verdict and leaves \<^verbatim>\<open>validate.errors\<close> (\<^verbatim>\<open>null\<close> or an
  array).
\<close>

record schema_error =
  instancePath :: string
  schemaMessage :: string

type_synonym validator = "json \<Rightarrow> bool \<times> schema_error list option"

definition formatSchemaError :: "schema_error \<Rightarrow> string" where
  "formatSchemaError error =
     (let path = (if instancePath error \<noteq> [] then instancePath error else ''Root'')
      in path @ '': '' @ schemaMessage error)"

definition schemaDiagnostic :: "schema_error \<Rightarrow> diagnostic" where
  "schemaDiagnostic error =
     \<lparr>message = formatSchemaError error, severity = Error, source = ''quiz-schema''\<rparr>"

text \<open>\<^verbatim>\<open>// Validate against JSON schema if available\<close>\<close>

definition validateSchema :: "validator option \<Rightarrow> json \<Rightarrow> diagnostic list \<Rightarrow> diagnostic list" where
  "validateSchema validate quiz diagnostics =
     (case validate of
        None \<Rightarrow> diagnostics
      | Some v \<Rightarrow>
          (case v quiz of
             (isValid, errors) \<Rightarrow>
               (case errors of
                  None \<Rightarrow> diagnostics
                | Some errs \<Rightarrow>
                    (if \<not> isValid then foldl push diagnostics (map schemaDiagnostic errs)
                     else diagnostics))))"

text \<open>
  The \<^verbatim>\<open>try\<close> block after \<^verbatim>\<open>JSON.parse\<close> has returned \<open>quiz\<close>. Reading \<^verbatim>\<open>quiz.metadata\<close>
  raises when the document is the literal \<^verbatim>\<open>null\<close>.
\<close>

definition validateParsed ::
  "validator option \<Rightarrow> json \<Rightarrow> diagnostic list \<Rightarrow> js_error option \<times> diagnostic list" where
  "validateParsed validate quiz diagnostics =
     (if quiz = JNull then (Some (cannotReadNull ''metadata''), diagnostics)
      else
        (let diagnostics1 =
               (case getProp quiz ''metadata'' of
                  None \<Rightarrow>
                    push diagnostics
                      (validatorDiagnostic ''Missing required property: metadata'' Error)
                | Some metadata \<Rightarrow>
                    (if \<not> truthy (Some metadata) then
                       push diagnostics
                         (validatorDiagnostic ''Missing required property: metadata'' Error)
                     else validateMetadata metadata diagnostics))
         in (case (case getProp quiz ''questions'' of
                     None \<Rightarrow>
                       (None, push diagnostics1
                          (validatorDiagnostic ''Missing required property: questions'' Error))
                   | Some questions \<Rightarrow>
                       (if \<not> truthy (Some questions) then
                          (None, push diagnostics1
                             (validatorDiagnostic ''Missing required property: questions'' Error))
                        else validateQuestions questions diagnostics1)) of
               (Some e, diagnostics2) \<Rightarrow> (Some e, diagnostics2)
             | (None, diagnostics2) \<Rightarrow> (None, validateSchema validate quiz diagnostics2))))"

text \<open>
  A \<^verbatim>\<open>vscode.TextDocument\<close>, as far as the validator reads it, and the
  \<^verbatim>\<open>diagnosticCollection\<close> the results are stored in, keyed by the document's uri.
\<close>

record document =
  fileName :: string
  uri :: string
  getText :: string

type_synonym collection = "string \<rightharpoonup> diagnostic list"

definition endsWith :: "string \<Rightarrow> string \<Rightarrow> bool" where
  "endsWith s ending =
     (length ending \<le> length s \<and> drop (length s - length ending) s = ending)"

definition isQuizFile :: "document \<Rightarrow> bool" where
  "isQuizFile doc = endsWith (fileName doc) ''.quiz''"

text \<open>
  The diagnostics array at the end of the \<^verbatim>\<open>try\<close>/\<^verbatim>\<open>catch\<close>. \<open>parse\<close> stands for
  \<^verbatim>\<open>JSON.parse\<close>: it returns the value, or the message of the SyntaxError it raises.
  The \<^verbatim>\<open>catch\<close> adds one diagnostic to whatever had been pushed before the exception.
\<close>

definition collectDiagnostics ::
  "(string \<Rightarrow> string + json) \<Rightarrow> validator option \<Rightarrow> string \<Rightarrow> diagnostic list" where
  "collectDiagnostics parse validate text =
     (case (case parse text of
              Inl m \<Rightarrow> (Some (SyntaxError m), [])
            | Inr quiz \<Rightarrow> validateParsed validate quiz []) of
        (None, diagnostics) \<Rightarrow> diagnostics
      | (Some e, diagnostics) \<Rightarrow>
          push diagnostics (validatorDiagnostic (''Invalid JSON: '' @ errorMessage e) Error))"

definition validateQuizFile ::
  "(string \<Rightarrow> string + json) \<Rightarrow> validator option \<Rightarrow> document \<Rightarrow> collection \<Rightarrow> collection" where
  "validateQuizFile parse validate doc diagnosticCollection =
     (if \<not> endsWith (fileName doc) ''.quiz'' then diagnosticCollection
      else diagnosticCollection(uri doc \<mapsto> collectDiagnostics parse validate (getText doc)))"

section \<open>Sample documents\<close>

text \<open>
  The first question of the sample quiz that the extension itself generates, and
  variations of it. \<open>quizWith q\<close> is a document with valid metadata and the single
  question \<open>q\<close>.
\<close>

definition sampleMetadata :: json where
  "sampleMetadata =
     JObj [(''title'', JStr ''Sample Quiz''), (''description'', JStr ''A quiz''),
           (''version'', JStr ''1.0.0''), (''author'', JStr ''Quiz Author'')]"

definition sampleQuestion :: json where
  "sampleQuestion =
     JObj [(''type'', JStr ''multiple_choice''),
           (''text'', JStr ''What is the capital of France?''),
           (''options'', JArr [JStr ''Madrid'', JStr ''Paris'', JStr ''Rome'', JStr ''Berlin'']),
           (''correct_answers'', JArr [JNum (Finite 1)])]"

definition quizWith :: "json \<Rightarrow> json" where
  "quizWith question = JObj [(''metadata'', sampleMetadata), (''questions'', JArr [question])]"

definition sampleQuiz :: json where
  "sampleQuiz = JObj [(''metadata'', sampleMetadata), (''questions'', JArr [sampleQuestion])]"

definition emptyQuiz :: json where
  "emptyQuiz = JObj [(''metadata'', sampleMetadata), (''questions'', JArr [])]"

definition sampleDocument :: document where
  "sampleDocument =
     \<lparr>fileName = ''sample.quiz'', uri = ''file:///sample.quiz'', getText = ''sample''\<rparr>"

text \<open>A schema validator that rejects every document with one error.\<close>

definition rejectAll :: validator where
  "rejectAll quiz =
     (False, Some [\<lparr>instancePath = ''/questions'', schemaMessage = ''must NOT have fewer than 1 items''\<rparr>])"

text \<open>Metadata whose title is the number \<open>0\<close>, and metadata whose title is \<open>true\<close>.\<close>

definition zeroTitleMetadata :: json where
  "zeroTitleMetadata =
     JObj [(''title'', JNum (Finite 0)), (''description'', JStr ''A quiz''),
           (''version'', JStr ''1.0.0''), (''author'', JStr ''Quiz Author'')]"

definition booleanTitleMetadata :: json where
  "booleanTitleMetadata =
     JObj [(''title'', JBool True), (''description'', JStr ''A quiz''),
           (''version'', JStr ''1.0.0''), (''author'', JStr ''Quiz Author'')]"

definition zeroTitleQuiz :: json where
  "zeroTitleQuiz = JObj [(''metadata'', zeroTitleMetadata), (''questions'', JArr [])]"

text \<open>A question of an unsupported type that has neither options nor answers.\<close>

definition essayQuestion :: json where
  "essayQuestion = JObj [(''type'', JStr ''essay''), (''text'', JStr ''Explain.'')]"

text \<open>Questions whose \<^verbatim>\<open>correct_answers\<close> is \<^verbatim>\<open>null\<close>, \<^verbatim>\<open>[]\<close> and \<^verbatim>\<open>[0, 1]\<close>.\<close>

definition nullAnswersQuestion :: json where
  "nullAnswersQuestion =
     JObj [(''type'', JStr ''multiple_choice''), (''text'', JStr ''Pick one''),
           (''options'', JArr [JStr ''A'', JStr ''B'']), (''correct_answers'', JNull)]"

definition emptyAnswersQuestion :: json where
  "emptyAnswersQuestion =
     JObj [(''type'', JStr ''single_choice''), (''text'', JStr ''Pick one''),
           (''options'', JArr [JStr ''A'', JStr ''B'']), (''correct_answers'', JArr [])]"

definition twoAnswersQuestion :: json where
  "twoAnswersQuestion =
     JObj [(''type'', JStr ''single_choice''), (''text'', JStr ''Pick one''),
           (''options'', JArr [JStr ''A'', JStr ''B'']),
           (''correct_answers'', JArr [JNum (Finite 0), JNum (Finite 1)])]"

text \<open>
  A question of an unsupported type with two options and the answer \<^verbatim>\<open>5\<close>, and a
  \<^verbatim>\<open>true_false\<close> question with three options and the answers \<^verbatim>\<open>[5, "1", 1, -1]\<close>.
\<close>

definition essayChoiceQuestion :: json where
  "essayChoiceQuestion =
     JObj [(''type'', JStr ''essay''), (''text'', JStr ''Explain.''),
           (''options'', JArr [JStr ''A'', JStr ''B'']),
           (''correct_answers'', JArr [JNum (Finite 5)])]"

definition mixedAnswersQuestion :: json where
  "mixedAnswersQuestion =
     JObj [(''type'', JStr ''true_false''), (''text'', JStr ''The Earth is flat.''),
           (''options'', JArr [JStr ''True'', JStr ''False'', JStr ''Unknown'']),
           (''correct_answers'',
            JArr [JNum (Finite 5), JStr ''1'', JNum (Finite 1), JNum (Finite (- 1))])]"

text \<open>
  Questions whose only answer is the object \<^verbatim>\<open>{"toString": 1}\<close>: not a number, and not
  convertible to a string.
\<close>

definition objectAnswerQuestion :: json where
  "objectAnswerQuestion =
     JObj [(''type'', JStr ''multiple_choice''), (''text'', JStr ''Pick one''),
           (''options'', JArr [JStr ''A'', JStr ''B'']),
           (''correct_answers'', JArr [JObj [(''toString'', JNum (Finite 1))]])]"

definition objectAnswerTrueFalse :: json where
  "objectAnswerTrueFalse =
     JObj [(''type'', JStr ''true_false''), (''text'', JStr ''The Earth is flat.''),
           (''options'', JArr [JStr ''True'', JStr ''False'']),
           (''correct_answers'', JArr [JObj [(''toString'', JNum (Finite 1))]])]"

text \<open>The question of the repository's tests on indices and options, with its two arrays.\<close>

definition testQuestion :: "json list \<Rightarrow> json list \<Rightarrow> json" where
  "testQuestion options answers =
     JObj [(''type'', JStr ''multiple_choice''), (''text'', JStr ''Test question''),
           (''options'', JArr options), (''correct_answers'', JArr answers)]"

text \<open>
  Two documents with the same text under different names, a collection that already
  holds a diagnostic for the second of them, two parsers that agree on that text only,
  and a second schema validator that agrees with \<open>rejectAll\<close> on the parsed document
  only.
\<close>

definition firstCopy :: document where
  "firstCopy =
     \<lparr>fileName = ''first.quiz'', uri = ''file:///first.quiz'', getText = ''sample''\<rparr>"

definition secondCopy :: document where
  "secondCopy =
     \<lparr>fileName = ''second.quiz'', uri = ''file:///copies/second.quiz'', getText = ''sample''\<rparr>"

definition staleCollection :: collection where
  "staleCollection =
     [''file:///copies/second.quiz'' \<mapsto>
        [validatorDiagnostic ''Missing required property: metadata'' Error]]"

definition parseAny :: "string \<Rightarrow> string + json" where
  "parseAny text = Inr (quizWith emptyAnswersQuestion)"

definition parseSample :: "string \<Rightarrow> string + json" where
  "parseSample text =
     (if text = ''sample'' then Inr (quizWith emptyAnswersQuestion) else Inl ''Unexpected token'')"

definition rejectKnown :: validator where
  "rejectKnown quiz =
     (if quiz = quizWith emptyAnswersQuestion then rejectAll quiz else (True, None))"

section \<open>Vocabulary of the properties\<close>

text \<open>
  An ``invalid index'' diagnostic of the question at position \<open>index\<close>: its message starts
  with \<^verbatim>\<open>Question <index + 1>: correct_answers contains invalid index \<close>.
\<close>

definition isIndexDiagnostic :: "nat \<Rightarrow> diagnostic \<Rightarrow> bool" where
  "isIndexDiagnostic index d =
     prefix (questionLabel index @ ''correct_answers contains invalid index '') (message d)"

text \<open>
  What the schema layer contributes for a document: nothing when no validator is loaded,
  otherwise the validator's answer on that document.
\<close>

definition schemaVerdict ::
  "validator option \<Rightarrow> json \<Rightarrow> (bool \<times> schema_error list option) option" where
  "schemaVerdict validate quiz = (case validate of None \<Rightarrow> None | Some v \<Rightarrow> Some (v quiz))"

section \<open>Basic facts\<close>

lemmas evalDefs =
  validateParsed_def validateQuestions_def validateQuestion_def validateQuestionType_def
  validateQuestionText_def validateOptions_def validateCorrectAnswers_def validateSchema_def
  validateMetadata_def validateMetadataField_def requiredFields_def supportedTypes_def
  typeIs_def push_def questionLabel_def natToString.simps digitChar_def intToString_def
  quizWith_def sampleMetadata_def cannotConvert_def

lemma getProp_Some_object: "getProp x k = Some v \<Longrightarrow> \<exists>kvs. x = JObj kvs"
  by (cases x) simp_all

lemma isArray_Some: "isArray x \<longleftrightarrow> (\<exists>xs. x = Some (JArr xs))"
  by (cases x rule: isArray.cases) simp_all

lemma foldl_push: "foldl push ds xs = ds @ xs"
  by (induction xs arbitrary: ds) (simp_all add: push_def)

lemma list_all2_right_witness:
  "list_all2 P xs ys \<Longrightarrow> y \<in> set ys \<Longrightarrow> \<exists>x \<in> set xs. P x y"
  by (induction rule: list_all2_induct) auto

text \<open>Two messages about the same question are equal only if their bodies are.\<close>

lemma label_diag_eq [simp]:
  "validatorDiagnostic (questionLabel i @ b) s = validatorDiagnostic (questionLabel i @ b') s'
     \<longleftrightarrow> b = b' \<and> s = s'"
  by (auto simp add: validatorDiagnostic_def)

lemma isIndexDiagnostic_label [simp]:
  "isIndexDiagnostic index (validatorDiagnostic (questionLabel index @ b) sev)
     \<longleftrightarrow> prefix ''correct_answers contains invalid index '' b"
  by (simp add: isIndexDiagnostic_def validatorDiagnostic_def)

lemma includesType_cases:
  "includesType qtype \<longleftrightarrow>
     qtype = Some (JStr ''multiple_choice'') \<or> qtype = Some (JStr ''single_choice'')
       \<or> qtype = Some (JStr ''true_false'')"
  by (cases qtype rule: includesType.cases) (auto simp add: supportedTypes_def)

subsection \<open>What each block can add\<close>

lemma validateMetadataField_append:
  "validateMetadataField m ds f = ds @ validateMetadataField m [] f"
  by (simp add: validateMetadataField_def push_def)

lemma foldl_validateMetadataField:
  "foldl (validateMetadataField m) ds fs = ds @ concat (map (validateMetadataField m []) fs)"
proof (induction fs arbitrary: ds)
  case Nil
  show ?case by simp
next
  case (Cons f fs)
  show ?case
    using Cons.IH [of "validateMetadataField m ds f"] validateMetadataField_append [of m ds f]
    by simp
qed

lemma validateMetadata_strings:
  assumes "\<forall>f \<in> set requiredFields. \<exists>s. getProp metadata f = Some (JStr s) \<and> s \<noteq> []"
  shows "validateMetadata metadata ds = ds"
proof -
  have "\<forall>f \<in> set requiredFields. validateMetadataField metadata [] f = []"
    using assms by (auto simp add: validateMetadataField_def)
  then show ?thesis
    by (simp add: validateMetadata_def foldl_validateMetadataField)
qed

lemma missing_field_iff:
  "validatorDiagnostic (''Missing required property: metadata.'' @ field) Error
       \<in> set (validateMetadata m [])
     \<longleftrightarrow> field \<in> set requiredFields \<and> \<not> truthy (getProp m field)"
  by (auto simp add: validateMetadata_def foldl_validateMetadataField validateMetadataField_def
        push_def validatorDiagnostic_def split: if_splits)

lemma string_field_iff:
  "validatorDiagnostic (''metadata.'' @ field @ '' must be a string'') Error
       \<in> set (validateMetadata m [])
     \<longleftrightarrow> field \<in> set requiredFields \<and> truthy (getProp m field) \<and> \<not> isString (getProp m field)"
  by (auto simp add: validateMetadata_def foldl_validateMetadataField validateMetadataField_def
        push_def validatorDiagnostic_def split: if_splits)

lemma validateSchema_sources:
  "\<exists>new. validateSchema validate quiz ds = ds @ new \<and> (\<forall>d \<in> set new. source d = ''quiz-schema'')"
  by (auto simp add: validateSchema_def foldl_push schemaDiagnostic_def
        split: option.splits prod.splits)

lemma validateQuestionType_supported:
  "includesType qtype \<Longrightarrow> validateQuestionType index qtype ds = (None, ds)"
  by (auto simp add: includesType_cases validateQuestionType_def supportedTypes_def)

lemma validateQuestionText_new:
  "\<exists>new. validateQuestionText index qtext ds = ds @ new \<and>
     set new \<subseteq> {validatorDiagnostic (questionLabel index @ ''Missing required property: text'') Error,
                validatorDiagnostic (questionLabel index @ ''text must be a string'') Error}"
  by (simp add: validateQuestionText_def push_def)

lemma validateOptions_new:
  "\<exists>new. validateOptions index (Some (JStr t)) options ds = ds @ new \<and>
     set new \<subseteq> {validatorDiagnostic (questionLabel index @ ''Missing required property: options'') Error,
                validatorDiagnostic (questionLabel index @ ''options must be an array'') Error,
                validatorDiagnostic
                  (questionLabel index @ ''true_false questions must have exactly 2 options'') Error,
                validatorDiagnostic
                  (questionLabel index @ t @ '' questions must have at least 2 options'') Warning}"
  by (simp add: validateOptions_def push_def)

text \<open>
  The loop over the answers only appends ``invalid index'' diagnostics, also when it is
  cut short by an exception.
\<close>

lemma validateIndices_new:
  "\<exists>r new. validateIndices index n cas ds = (r, ds @ new) \<and>
     (\<forall>d \<in> set new. \<exists>s. d = validatorDiagnostic
        (questionLabel index @ ''correct_answers contains invalid index '' @ s
           @ ''. Valid range: 0-'' @ intToString (int n - 1)) Error)"
proof (induction cas arbitrary: ds)
  case Nil
  show ?case by simp
next
  case (Cons v cas)
  show ?case
  proof (cases "invalidIndex v n")
    case False
    then show ?thesis using Cons.IH [of ds] by simp
  next
    case True
    show ?thesis
    proof (cases "toStringJS v")
      case (Inl e)
      then show ?thesis using True by simp
    next
      case (Inr s)
      let ?d = "validatorDiagnostic
        (questionLabel index @ ''correct_answers contains invalid index '' @ s
           @ ''. Valid range: 0-'' @ intToString (int n - 1)) Error"
      obtain r new where "validateIndices index n cas (push ds ?d) = (r, push ds ?d @ new)"
        and "\<forall>d \<in> set new. \<exists>s. d = validatorDiagnostic
        (questionLabel index @ ''correct_answers contains invalid index '' @ s
           @ ''. Valid range: 0-'' @ intToString (int n - 1)) Error"
        using Cons.IH [of "push ds ?d"] by blast
      then have "validateIndices index n (v # cas) ds = (r, ds @ (?d # new))"
        and "\<forall>d \<in> set (?d # new). \<exists>s. d = validatorDiagnostic
        (questionLabel index @ ''correct_answers contains invalid index '' @ s
           @ ''. Valid range: 0-'' @ intToString (int n - 1)) Error"
        using True Inr by (auto simp add: push_def)
      then show ?thesis by blast
    qed
  qed
qed

text \<open>
  When every answer converts to a string the loop runs to its end, and what it appends
  matches the invalid answers one to one, in order.
\<close>

lemma validateIndices_without_exception:
  assumes "\<forall>v \<in> set cas. \<exists>s. toStringJS v = Inr s"
  shows "\<exists>new. validateIndices index n cas ds = (None, ds @ new) \<and>
           list_all2
             (\<lambda>v d. \<exists>s. toStringJS v = Inr s \<and>
                d = validatorDiagnostic
                      (questionLabel index @ ''correct_answers contains invalid index '' @ s
                         @ ''. Valid range: 0-'' @ intToString (int n - 1)) Error)
             (filter (\<lambda>v. invalidIndex v n) cas) new"
  using assms
proof (induction cas arbitrary: ds)
  case Nil
  show ?case by simp
next
  case (Cons v cas)
  have rest: "\<forall>v \<in> set cas. \<exists>s. toStringJS v = Inr s"
    using Cons.prems by simp
  show ?case
  proof (cases "invalidIndex v n")
    case False
    then show ?thesis using Cons.IH [OF rest, of ds] by simp
  next
    case True
    obtain s where s: "toStringJS v = Inr s"
      using Cons.prems by auto
    let ?d = "validatorDiagnostic
        (questionLabel index @ ''correct_answers contains invalid index '' @ s
           @ ''. Valid range: 0-'' @ intToString (int n - 1)) Error"
    obtain new where "validateIndices index n cas (push ds ?d) = (None, push ds ?d @ new)"
      and "list_all2
             (\<lambda>v d. \<exists>s. toStringJS v = Inr s \<and>
                d = validatorDiagnostic
                      (questionLabel index @ ''correct_answers contains invalid index '' @ s
                         @ ''. Valid range: 0-'' @ intToString (int n - 1)) Error)
             (filter (\<lambda>v. invalidIndex v n) cas) new"
      using Cons.IH [OF rest, of "push ds ?d"] by blast
    then have "validateIndices index n (v # cas) ds = (None, ds @ (?d # new))"
      and "list_all2
             (\<lambda>v d. \<exists>s. toStringJS v = Inr s \<and>
                d = validatorDiagnostic
                      (questionLabel index @ ''correct_answers contains invalid index '' @ s
                         @ ''. Valid range: 0-'' @ intToString (int n - 1)) Error)
             (filter (\<lambda>v. invalidIndex v n) (v # cas)) (?d # new)"
      using True s by (simp_all add: push_def)
    then show ?thesis by blast
  qed
qed

subsection \<open>The block for correct_answers\<close>

text \<open>
  The ``exactly one correct answer'' diagnostic is among what the block appends to an
  array of answers exactly when the array has two or more elements, and the ``cannot be
  empty'' diagnostic exactly when it has none; this holds also when the loop over the
  answers is cut short by an exception.
\<close>

lemma validateCorrectAnswers_cardinality:
  assumes t: "t = ''single_choice'' \<or> t = ''true_false''"
  shows "\<exists>r new. validateCorrectAnswers index (Some (JStr t)) options (Some (JArr cas)) ds
                    = (r, ds @ new) \<and>
           (validatorDiagnostic
              (questionLabel index @ t @ '' questions must have exactly one correct answer'') Error
              \<in> set new \<longleftrightarrow> 2 \<le> length cas) \<and>
           (validatorDiagnostic (questionLabel index @ ''correct_answers cannot be empty'') Error
              \<in> set new \<longleftrightarrow> cas = [])"
proof (cases "cas = []")
  case True
  then show ?thesis
    using t by (auto simp add: validateCorrectAnswers_def push_def)
next
  case False
  let ?card = "validatorDiagnostic
     (questionLabel index @ t @ '' questions must have exactly one correct answer'') Error"
  let ?empty = "validatorDiagnostic (questionLabel index @ ''correct_answers cannot be empty'') Error"
  let ?d1 = "if length cas \<noteq> 1 then [?card] else []"
  have len: "2 \<le> length cas \<longleftrightarrow> length cas \<noteq> 1"
    using False by (cases cas) (auto simp add: Suc_le_eq)
  show ?thesis
  proof (cases "truthy options \<and> isArray options")
    case noArray: False
    have "validateCorrectAnswers index (Some (JStr t)) options (Some (JArr cas)) ds
            = (None, ds @ ?d1)"
      using t False noArray by (auto simp add: validateCorrectAnswers_def push_def typeIs_def)
    moreover have "?empty \<notin> set ?d1"
      using t by auto
    ultimately show ?thesis using len False by auto
  next
    case array: True
    obtain r new where
      run: "validateIndices index (length (elements options)) cas (ds @ ?d1) = (r, (ds @ ?d1) @ new)"
      and new: "\<forall>d \<in> set new. \<exists>s. d = validatorDiagnostic
        (questionLabel index @ ''correct_answers contains invalid index '' @ s
           @ ''. Valid range: 0-'' @ intToString (int (length (elements options)) - 1)) Error"
      using validateIndices_new by blast
    have notNew: "?card \<notin> set new"
      using new t by auto
    let ?tf = "validatorDiagnostic
      (questionLabel index @ ''true_false questions must have correct_answers index 0 or 1'') Error"
    have "\<exists>r' post. validateCorrectAnswers index (Some (JStr t)) options (Some (JArr cas)) ds
            = (r', ds @ ?d1 @ new @ post) \<and> set post \<subseteq> {?tf}"
      using t False array run
      by (cases r) (auto simp add: validateCorrectAnswers_def push_def typeIs_def Let_def)
    then obtain r' post where
      res: "validateCorrectAnswers index (Some (JStr t)) options (Some (JArr cas)) ds
            = (r', ds @ (?d1 @ new @ post))" and post: "set post \<subseteq> {?tf}"
      by auto
    have "?card \<notin> set post"
      using post t by auto
    then have card: "?card \<in> set (?d1 @ new @ post) \<longleftrightarrow> 2 \<le> length cas"
      using notNew len by auto
    have "?empty \<notin> set ?d1" "?empty \<notin> set new" "?empty \<notin> set post"
      using new post t by auto
    then have "?empty \<in> set (?d1 @ new @ post) \<longleftrightarrow> cas = []"
      using False by simp
    then show ?thesis using res card by blast
  qed
qed

text \<open>
  With an array of options, a non-empty array of answers and no exception, the block
  appends the cardinality diagnostic (if any), the ``invalid index'' diagnostics and the
  \<^verbatim>\<open>true_false\<close> domain diagnostic (if any), in this order.
\<close>

lemma validateCorrectAnswers_without_exception:
  assumes t: "t = ''multiple_choice'' \<or> t = ''single_choice'' \<or> t = ''true_false''"
    and nonempty: "cas \<noteq> []"
    and converts: "\<forall>v \<in> set cas. \<exists>s. toStringJS v = Inr s"
  shows "\<exists>inew.
           validateCorrectAnswers index (Some (JStr t)) (Some (JArr opts)) (Some (JArr cas)) ds
             = (None,
                ds @ (if (t = ''single_choice'' \<or> t = ''true_false'') \<and> length cas \<noteq> 1
                      then [validatorDiagnostic
                              (questionLabel index @ t
                                 @ '' questions must have exactly one correct answer'') Error]
                      else [])
                   @ inew
                   @ (if t = ''true_false'' \<and> length cas = 1 \<and> hd cas \<noteq> JNum (Finite 0)
                           \<and> hd cas \<noteq> JNum (Finite 1)
                      then [validatorDiagnostic
                              (questionLabel index
                                 @ ''true_false questions must have correct_answers index 0 or 1'')
                              Error]
                      else [])) \<and>
           list_all2
             (\<lambda>v d. \<exists>s. toStringJS v = Inr s \<and>
                d = validatorDiagnostic
                      (questionLabel index @ ''correct_answers contains invalid index '' @ s
                         @ ''. Valid range: 0-'' @ intToString (int (length opts) - 1)) Error)
             (filter (\<lambda>v. invalidIndex v (length opts)) cas) inew"
proof -
  let ?card = "validatorDiagnostic
     (questionLabel index @ t @ '' questions must have exactly one correct answer'') Error"
  let ?tf = "validatorDiagnostic
     (questionLabel index @ ''true_false questions must have correct_answers index 0 or 1'') Error"
  define card where
    "card = (if (t = ''single_choice'' \<or> t = ''true_false'') \<and> length cas \<noteq> 1 then [?card] else [])"
  define post where
    "post = (if t = ''true_false'' \<and> length cas = 1 \<and> hd cas \<noteq> JNum (Finite 0)
                \<and> hd cas \<noteq> JNum (Finite 1) then [?tf] else [])"
  obtain inew where
    run: "validateIndices index (length opts) cas (ds @ card) = (None, (ds @ card) @ inew)"
    and inew: "list_all2
             (\<lambda>v d. \<exists>s. toStringJS v = Inr s \<and>
                d = validatorDiagnostic
                      (questionLabel index @ ''correct_answers contains invalid index '' @ s
                         @ ''. Valid range: 0-'' @ intToString (int (length opts) - 1)) Error)
             (filter (\<lambda>v. invalidIndex v (length opts)) cas) inew"
    using validateIndices_without_exception [OF converts] by blast
  have res: "validateCorrectAnswers index (Some (JStr t)) (Some (JArr opts)) (Some (JArr cas)) ds
          = (None, ds @ card @ inew @ post)"
  proof -
    consider (mc) "t = ''multiple_choice''" | (sc) "t = ''single_choice''" | (tf) "t = ''true_false''"
      using t by blast
    then show ?thesis
    proof cases
      case mc
      show ?thesis
        using nonempty run unfolding card_def post_def validateCorrectAnswers_def mc
        by (auto simp add: typeIs_def push_def Let_def)
    next
      case sc
      show ?thesis
        using nonempty run unfolding card_def post_def validateCorrectAnswers_def sc
        by (auto simp add: typeIs_def push_def Let_def)
    next
      case tf
      show ?thesis
        using nonempty run unfolding card_def post_def validateCorrectAnswers_def tf
        by (auto simp add: typeIs_def push_def Let_def)
    qed
  qed
  show ?thesis
    using res inew unfolding card_def post_def by (intro exI [of _ inew] conjI)
qed

text \<open>Unless the answers are an array of exactly one element, the block never appends the
  \<^verbatim>\<open>true_false\<close> domain diagnostic.\<close>

lemma validateCorrectAnswers_domain:
  assumes t: "t = ''multiple_choice'' \<or> t = ''single_choice'' \<or> t = ''true_false''"
    and len: "length (elements answers) \<noteq> 1"
  shows "\<exists>r new. validateCorrectAnswers index (Some (JStr t)) options answers ds = (r, ds @ new) \<and>
           validatorDiagnostic
             (questionLabel index @ ''true_false questions must have correct_answers index 0 or 1'')
             Error \<notin> set new"
proof -
  let ?tf = "validatorDiagnostic
     (questionLabel index @ ''true_false questions must have correct_answers index 0 or 1'') Error"
  let ?card = "validatorDiagnostic
     (questionLabel index @ t @ '' questions must have exactly one correct answer'') Error"
  define d1 where "d1 = (if t = ''single_choice'' \<or> t = ''true_false'' then [?card] else [])"
  have d1: "?tf \<notin> set d1"
    using t by (auto simp add: d1_def)
  consider (missing) "\<not> truthy answers"
    | (notArray) "truthy answers" "\<not> isArray answers"
    | (empty) "isArray answers" "elements answers = []"
    | (noOptions) "isArray answers" "elements answers \<noteq> []" "\<not> (truthy options \<and> isArray options)"
    | (full) "isArray answers" "elements answers \<noteq> []" "truthy options \<and> isArray options"
    by blast
  then show ?thesis
  proof cases
    case missing
    then have "validateCorrectAnswers index (Some (JStr t)) options answers ds
                 = (None, ds @ [validatorDiagnostic
                     (questionLabel index @ ''Missing required property: correct_answers'') Error])"
      by (simp add: validateCorrectAnswers_def push_def)
    then show ?thesis by (intro exI conjI) (assumption, simp)
  next
    case notArray
    then have "validateCorrectAnswers index (Some (JStr t)) options answers ds
                 = (None, ds @ [validatorDiagnostic
                     (questionLabel index @ ''correct_answers must be an array'') Error])"
      by (auto simp add: validateCorrectAnswers_def push_def)
    then show ?thesis by (intro exI conjI) (assumption, simp)
  next
    case empty
    then have "validateCorrectAnswers index (Some (JStr t)) options answers ds
                 = (None, ds @ [validatorDiagnostic
                     (questionLabel index @ ''correct_answers cannot be empty'') Error])"
      by (cases answers rule: isArray.cases) (simp_all add: validateCorrectAnswers_def push_def)
    then show ?thesis by (intro exI conjI) (assumption, simp)
  next
    case noOptions
    then have "validateCorrectAnswers index (Some (JStr t)) options answers ds = (None, ds @ d1)"
      using t len unfolding d1_def
      by (cases answers rule: isArray.cases)
         (auto simp add: validateCorrectAnswers_def push_def typeIs_def)
    then show ?thesis using d1 by blast
  next
    case full
    obtain r new where
      run: "validateIndices index (length (elements options)) (elements answers) (ds @ d1)
              = (r, (ds @ d1) @ new)"
      and new: "\<forall>d \<in> set new. \<exists>s. d = validatorDiagnostic
          (questionLabel index @ ''correct_answers contains invalid index '' @ s
             @ ''. Valid range: 0-'' @ intToString (int (length (elements options)) - 1)) Error"
      using validateIndices_new by blast
    have notNew: "?tf \<notin> set new"
      using new by auto
    obtain cas opts where shapes: "answers = Some (JArr cas)" "options = Some (JArr opts)"
      using full by (auto simp add: isArray_Some)
    have lens: "cas \<noteq> []" "length cas \<noteq> 1"
      using full len shapes by simp_all
    have run': "validateIndices index (length opts) cas (ds @ d1) = (r, ds @ d1 @ new)"
      using run shapes by simp
    have "validateCorrectAnswers index (Some (JStr t)) options answers ds = (r, ds @ (d1 @ new))"
    proof -
      consider (mc) "t = ''multiple_choice''" | (sc) "t = ''single_choice''" | (tf) "t = ''true_false''"
        using t by blast
      then show ?thesis
      proof cases
        case mc
        show ?thesis
          using lens run' unfolding d1_def validateCorrectAnswers_def shapes mc
          by (cases r) (simp_all add: typeIs_def push_def)
      next
        case sc
        show ?thesis
          using lens run' unfolding d1_def validateCorrectAnswers_def shapes sc
          by (cases r) (simp_all add: typeIs_def push_def)
      next
        case tf
        show ?thesis
          using lens run' unfolding d1_def validateCorrectAnswers_def shapes tf
          by (cases r) (simp_all add: typeIs_def push_def)
      qed
    qed
    then show ?thesis using d1 notNew by (intro exI conjI) (assumption, simp)
  qed
qed

section \<open>The repository's tests, on the model\<close>

text \<open>
  The test suite of the extension asks for an Error containing \<^verbatim>\<open>invalid index 5\<close> for
  the answers \<^verbatim>\<open>[0, 5]\<close> over three options, an Error containing
  \<^verbatim>\<open>invalid index -1\<close> for \<^verbatim>\<open>[-1, 1]\<close>, and a Warning containing
  \<^verbatim>\<open>at least 2 options\<close> for a single option. The model gives exactly these.
\<close>

lemma test_invalid_index:
  "validateParsed None
     (quizWith (testQuestion [JStr ''A'', JStr ''B'', JStr ''C''] [JNum (Finite 0), JNum (Finite 5)])) []
     = (None, [validatorDiagnostic
         ''Question 1: correct_answers contains invalid index 5. Valid range: 0-2'' Error])"
  by (simp add: evalDefs testQuestion_def positiveToString_def)

lemma test_negative_index:
  "validateParsed None
     (quizWith (testQuestion [JStr ''A'', JStr ''B'', JStr ''C'']
        [JNum (Finite (- 1)), JNum (Finite 1)])) []
     = (None, [validatorDiagnostic
         ''Question 1: correct_answers contains invalid index -1. Valid range: 0-2'' Error])"
  by (simp add: evalDefs testQuestion_def positiveToString_def)

lemma test_few_options:
  "validateParsed None (quizWith (testQuestion [JStr ''A''] [JNum (Finite 0)])) []
     = (None, [validatorDiagnostic
         ''Question 1: multiple_choice questions must have at least 2 options'' Warning])"
  by (simp add: evalDefs testQuestion_def)

section \<open>Parse failures\<close>

text \<open>
  C4: when the text of a quiz file is not valid JSON (\<^verbatim>\<open>JSON.parse\<close> raises), the
  diagnostics stored for the document are exactly one Error whose message is
  \<^verbatim>\<open>Invalid JSON: \<close> followed by the parser's message; no structural, rule or schema
  diagnostic accompanies it, whatever the schema validator is.
\<close>

theorem parse_failure_single_diagnostic:
  assumes "endsWith (fileName doc) ''.quiz''" and "parse (getText doc) = Inl m"
  shows "validateQuizFile parse validate doc coll (uri doc)
           = Some [\<lparr>message = ''Invalid JSON: '' @ m, severity = Error,
                    source = ''quiz-validator''\<rparr>]"
  using assms
  by (simp add: validateQuizFile_def collectDiagnostics_def push_def validatorDiagnostic_def)

theorem parse_failure_single_diagnostic_witness:
  "validateQuizFile (\<lambda>t. Inl ''Unexpected end of JSON input'') (Some rejectAll)
      \<lparr>fileName = ''broken.quiz'', uri = ''file:///broken.quiz'', getText = ''{''\<rparr> Map.empty
      ''file:///broken.quiz''
     = Some [\<lparr>message = ''Invalid JSON: Unexpected end of JSON input'', severity = Error,
              source = ''quiz-validator''\<rparr>]"
  using parse_failure_single_diagnostic
    [of "\<lparr>fileName = ''broken.quiz'', uri = ''file:///broken.quiz'', getText = ''{''\<rparr>"
        "\<lambda>t. Inl ''Unexpected end of JSON input''" "''Unexpected end of JSON input''"
        "Some rejectAll" Map.empty]
  by (simp add: endsWith_def)

section \<open>Metadata fields\<close>

text \<open>
  C3 (amended): for each of the four required fields, \<^verbatim>\<open>validateMetadata\<close> reports a
  value that is truthy and not a string (\<^verbatim>\<open>true\<close>, a number other than 0, an array, an
  object) as \<^verbatim>\<open>metadata.<field> must be a string\<close> and not as missing; it reports an
  absent or falsy value (\<^verbatim>\<open>null\<close>, \<^verbatim>\<open>false\<close>, \<^verbatim>\<open>0\<close>, the empty string) as
  \<^verbatim>\<open>Missing required property: metadata.<field>\<close> and not as a type error; and it never
  reports both for the same field.
\<close>

theorem metadata_field_missing_or_type:
  assumes "field \<in> set requiredFields"
  shows "(truthy (getProp m field) \<and> \<not> isString (getProp m field) \<longrightarrow>
            validatorDiagnostic (''metadata.'' @ field @ '' must be a string'') Error
              \<in> set (validateMetadata m []) \<and>
            validatorDiagnostic (''Missing required property: metadata.'' @ field) Error
              \<notin> set (validateMetadata m [])) \<and>
         (\<not> truthy (getProp m field) \<longrightarrow>
            validatorDiagnostic (''Missing required property: metadata.'' @ field) Error
              \<in> set (validateMetadata m []) \<and>
            validatorDiagnostic (''metadata.'' @ field @ '' must be a string'') Error
              \<notin> set (validateMetadata m [])) \<and>
         \<not> (validatorDiagnostic (''Missing required property: metadata.'' @ field) Error
              \<in> set (validateMetadata m []) \<and>
            validatorDiagnostic (''metadata.'' @ field @ '' must be a string'') Error
              \<in> set (validateMetadata m []))"
  using assms unfolding missing_field_iff string_field_iff by blast

theorem metadata_field_missing_or_type_witness:
  "(truthy (getProp booleanTitleMetadata ''title'')
      \<and> \<not> isString (getProp booleanTitleMetadata ''title'')) \<and>
   validatorDiagnostic ''metadata.title must be a string'' Error
     \<in> set (validateMetadata booleanTitleMetadata []) \<and>
   validatorDiagnostic ''Missing required property: metadata.title'' Error
     \<notin> set (validateMetadata booleanTitleMetadata []) \<and>
   \<not> truthy (getProp zeroTitleMetadata ''title'') \<and>
   validatorDiagnostic ''Missing required property: metadata.title'' Error
     \<in> set (validateMetadata zeroTitleMetadata []) \<and>
   validatorDiagnostic ''metadata.title must be a string'' Error
     \<notin> set (validateMetadata zeroTitleMetadata [])"
  using metadata_field_missing_or_type [of "''title''" booleanTitleMetadata]
    metadata_field_missing_or_type [of "''title''" zeroTitleMetadata]
  by (simp add: requiredFields_def booleanTitleMetadata_def zeroTitleMetadata_def)

text \<open>
  As first stated the claim fails: a title that is the number \<^verbatim>\<open>0\<close> is reported as
  missing, and the type diagnostic does not appear.
\<close>

theorem falsy_title_counterexample:
  "validateParsed None zeroTitleQuiz []
     = (None, [validatorDiagnostic ''Missing required property: metadata.title'' Error]) \<and>
   validatorDiagnostic ''metadata.title must be a string'' Error
     \<notin> set (snd (validateParsed None zeroTitleQuiz []))"
  by (simp add: evalDefs zeroTitleQuiz_def zeroTitleMetadata_def validatorDiagnostic_def)

section \<open>Questions of an unsupported type\<close>

text \<open>
  C2 (amended): for a question whose type is present (truthy) but is not one of the three
  supported values, the checks of \<^verbatim>\<open>options\<close> and \<^verbatim>\<open>correct_answers\<close> do not run at
  all, neither the presence and shape checks nor the count rules: the question gets the
  \<^verbatim>\<open>Invalid question type\<close> Error and after it only what the text check reports
  (provided the type value converts to a string).
\<close>

theorem unsupported_type_only_type_and_text:
  assumes qtype: "getProp question ''type'' = Some t"
    and present: "truthy (Some t)"
    and unsupported: "\<not> includesType (Some t)"
    and converts: "toStringJS t = Inr s"
  shows "\<exists>new. validateQuestion index question ds
           = (None,
              ds @ [validatorDiagnostic
                      (questionLabel index @ ''Invalid question type '' @ [CHR 0x27] @ s
                         @ [CHR 0x27]
                         @ ''. Supported types: multiple_choice, single_choice, true_false'')
                      Error] @ new) \<and>
          set new \<subseteq>
            {validatorDiagnostic (questionLabel index @ ''Missing required property: text'') Error,
             validatorDiagnostic (questionLabel index @ ''text must be a string'') Error}"
proof -
  let ?typeDiag = "validatorDiagnostic
     (questionLabel index @ ''Invalid question type '' @ [CHR 0x27] @ s @ [CHR 0x27]
        @ ''. Supported types: multiple_choice, single_choice, true_false'') Error"
  have notNull: "question \<noteq> JNull"
    using qtype by auto
  have typeRun: "validateQuestionType index (Some t) ds = (None, ds @ [?typeDiag])"
    using present unsupported converts by (simp add: validateQuestionType_def push_def)
  obtain new where
    textRun: "validateQuestionText index (getProp question ''text'') (ds @ [?typeDiag])
                = (ds @ [?typeDiag]) @ new"
    and new: "set new \<subseteq>
       {validatorDiagnostic (questionLabel index @ ''Missing required property: text'') Error,
        validatorDiagnostic (questionLabel index @ ''text must be a string'') Error}"
    using validateQuestionText_new by blast
  have "validateQuestion index question ds = (None, ds @ [?typeDiag] @ new)"
    using notNull qtype unsupported typeRun textRun by (simp add: validateQuestion_def)
  then show ?thesis using new by blast
qed

theorem unsupported_type_only_type_and_text_witness:
  "\<exists>new. validateQuestion 0 essayQuestion []
      = (None,
         [] @ [validatorDiagnostic
                 (questionLabel 0 @ ''Invalid question type '' @ [CHR 0x27] @ ''essay''
                    @ [CHR 0x27]
                    @ ''. Supported types: multiple_choice, single_choice, true_false'')
                 Error] @ new) \<and>
     set new \<subseteq>
       {validatorDiagnostic (questionLabel 0 @ ''Missing required property: text'') Error,
        validatorDiagnostic (questionLabel 0 @ ''text must be a string'') Error}"
  using unsupported_type_only_type_and_text [of essayQuestion "JStr ''essay''" "''essay''" 0 "[]"]
  by (simp add: essayQuestion_def supportedTypes_def)

text \<open>
  As first stated the claim fails: an \<^verbatim>\<open>essay\<close> question without options and answers
  gets the type Error only, and no missing-property diagnostic.
\<close>

theorem unsupported_type_counterexample:
  "validateParsed None (quizWith essayQuestion) []
     = (None, [validatorDiagnostic
         (''Question 1: Invalid question type '' @ [CHR 0x27] @ ''essay'' @ [CHR 0x27]
            @ ''. Supported types: multiple_choice, single_choice, true_false'') Error]) \<and>
   validatorDiagnostic ''Question 1: Missing required property: options'' Error
     \<notin> set (snd (validateParsed None (quizWith essayQuestion) [])) \<and>
   validatorDiagnostic ''Question 1: Missing required property: correct_answers'' Error
     \<notin> set (snd (validateParsed None (quizWith essayQuestion) []))"
  by (simp add: evalDefs essayQuestion_def validatorDiagnostic_def)

section \<open>The shape of correct_answers\<close>

text \<open>
  C1: a \<^verbatim>\<open>multiple_choice\<close> question whose \<^verbatim>\<open>correct_answers\<close> is \<^verbatim>\<open>null\<close> gets
  \<^verbatim>\<open>Question 1: Missing required property: correct_answers\<close> and nothing else. The
  test \<^verbatim>\<open>!question.correct_answers\<close> comes first and \<^verbatim>\<open>null\<close> is falsy, so the branch
  for \<^verbatim>\<open>=== null\<close> that follows it is never taken.
\<close>

theorem null_answers_reported_missing:
  "validateParsed None (quizWith nullAnswersQuestion) []
     = (None, [validatorDiagnostic ''Question 1: Missing required property: correct_answers'' Error])"
  by (simp add: evalDefs nullAnswersQuestion_def)

text \<open>
  The same for every question of a supported type: the missing-property Error is the
  last diagnostic of the question, and \<^verbatim>\<open>correct_answers cannot be null\<close> is not among
  the others.
\<close>

lemma null_answers_always_missing:
  assumes supported: "includesType (getProp question ''type'')"
    and answers: "getProp question ''correct_answers'' = Some JNull"
  shows "\<exists>new. validateQuestion index question ds
           = (None, ds @ new @ [validatorDiagnostic
                 (questionLabel index @ ''Missing required property: correct_answers'') Error]) \<and>
          validatorDiagnostic (questionLabel index @ ''correct_answers cannot be null'') Error
            \<notin> set new"
proof -
  obtain t where qtype: "getProp question ''type'' = Some (JStr t)"
    and t: "t = ''multiple_choice'' \<or> t = ''single_choice'' \<or> t = ''true_false''"
    using supported by (auto simp add: includesType_cases)
  have notNull: "question \<noteq> JNull"
    using qtype by auto
  obtain tnew where
    textRun: "validateQuestionText index (getProp question ''text'') ds = ds @ tnew"
    and tnew: "set tnew \<subseteq>
       {validatorDiagnostic (questionLabel index @ ''Missing required property: text'') Error,
        validatorDiagnostic (questionLabel index @ ''text must be a string'') Error}"
    using validateQuestionText_new by blast
  obtain onew where
    opts: "validateOptions index (Some (JStr t)) (getProp question ''options'') (ds @ tnew)
             = (ds @ tnew) @ onew"
    and onew: "set onew \<subseteq>
       {validatorDiagnostic (questionLabel index @ ''Missing required property: options'') Error,
        validatorDiagnostic (questionLabel index @ ''options must be an array'') Error,
        validatorDiagnostic
          (questionLabel index @ ''true_false questions must have exactly 2 options'') Error,
        validatorDiagnostic
          (questionLabel index @ t @ '' questions must have at least 2 options'') Warning}"
    using validateOptions_new by blast
  have "validateQuestion index question ds
          = (None, ds @ (tnew @ onew) @ [validatorDiagnostic
                 (questionLabel index @ ''Missing required property: correct_answers'') Error])"
    using notNull supported qtype answers textRun opts
    by (simp add: validateQuestion_def validateQuestionType_supported validateCorrectAnswers_def
          push_def)
  moreover have "validatorDiagnostic (questionLabel index @ ''correct_answers cannot be null'') Error
                   \<notin> set (tnew @ onew)"
    using tnew onew t by auto
  ultimately show ?thesis by blast
qed

section \<open>Cardinality of correct_answers\<close>

text \<open>
  C6 (amended): for a \<^verbatim>\<open>single_choice\<close> or \<^verbatim>\<open>true_false\<close> question whose
  \<^verbatim>\<open>correct_answers\<close> is an array, the Error
  \<^verbatim>\<open><type> questions must have exactly one correct answer\<close> is among the diagnostics of
  the question exactly when the array has two or more elements. One element never
  produces it, and neither does the empty array, which is reported as
  \<^verbatim>\<open>correct_answers cannot be empty\<close> instead (and is the only array reported so).
\<close>

theorem cardinality_of_nonempty_answers:
  assumes qtype: "getProp question ''type'' = Some (JStr t)"
    and t: "t = ''single_choice'' \<or> t = ''true_false''"
    and answers: "getProp question ''correct_answers'' = Some (JArr cas)"
  shows "\<exists>r new. validateQuestion index question ds = (r, ds @ new) \<and>
           (validatorDiagnostic
              (questionLabel index @ t @ '' questions must have exactly one correct answer'') Error
              \<in> set new \<longleftrightarrow> 2 \<le> length cas) \<and>
           (validatorDiagnostic (questionLabel index @ ''correct_answers cannot be empty'') Error
              \<in> set new \<longleftrightarrow> cas = [])"
proof -
  let ?card = "validatorDiagnostic
     (questionLabel index @ t @ '' questions must have exactly one correct answer'') Error"
  let ?empty = "validatorDiagnostic (questionLabel index @ ''correct_answers cannot be empty'') Error"
  have supported: "includesType (getProp question ''type'')"
    using qtype t by (auto simp add: supportedTypes_def)
  have notNull: "question \<noteq> JNull"
    using qtype by auto
  obtain tnew where
    textRun: "validateQuestionText index (getProp question ''text'') ds = ds @ tnew"
    and tnew: "set tnew \<subseteq>
       {validatorDiagnostic (questionLabel index @ ''Missing required property: text'') Error,
        validatorDiagnostic (questionLabel index @ ''text must be a string'') Error}"
    using validateQuestionText_new by blast
  obtain onew where
    opts: "validateOptions index (Some (JStr t)) (getProp question ''options'') (ds @ tnew)
             = (ds @ tnew) @ onew"
    and onew: "set onew \<subseteq>
       {validatorDiagnostic (questionLabel index @ ''Missing required property: options'') Error,
        validatorDiagnostic (questionLabel index @ ''options must be an array'') Error,
        validatorDiagnostic
          (questionLabel index @ ''true_false questions must have exactly 2 options'') Error,
        validatorDiagnostic
          (questionLabel index @ t @ '' questions must have at least 2 options'') Warning}"
    using validateOptions_new by blast
  obtain r cnew where
    ca: "validateCorrectAnswers index (Some (JStr t)) (getProp question ''options'')
           (Some (JArr cas)) ((ds @ tnew) @ onew) = (r, ((ds @ tnew) @ onew) @ cnew)"
    and cnew: "?card \<in> set cnew \<longleftrightarrow> 2 \<le> length cas"
    and cempty: "?empty \<in> set cnew \<longleftrightarrow> cas = []"
    using validateCorrectAnswers_cardinality
      [OF t, of index "getProp question ''options''" cas "(ds @ tnew) @ onew"]
    by (elim exE conjE)
  have run: "validateQuestion index question ds = (r, ds @ (tnew @ onew @ cnew))"
    using notNull supported qtype answers textRun opts ca
    by (simp add: validateQuestion_def validateQuestionType_supported)
  have "?card \<notin> set tnew" "?card \<notin> set onew"
    using tnew onew t by auto
  then have card: "?card \<in> set (tnew @ onew @ cnew) \<longleftrightarrow> 2 \<le> length cas"
    using cnew by simp
  have "?empty \<notin> set tnew" "?empty \<notin> set onew"
    using tnew onew t by auto
  then have empty: "?empty \<in> set (tnew @ onew @ cnew) \<longleftrightarrow> cas = []"
    using cempty by simp
  show ?thesis
    using run card empty by (intro exI [of _ r] exI [of _ "tnew @ onew @ cnew"] conjI)
qed

theorem cardinality_of_nonempty_answers_witness:
  "\<exists>r new. validateQuestion 0 twoAnswersQuestion [] = (r, [] @ new) \<and>
     (validatorDiagnostic
        (questionLabel 0 @ ''single_choice'' @ '' questions must have exactly one correct answer'')
        Error \<in> set new \<longleftrightarrow> 2 \<le> length [JNum (Finite 0), JNum (Finite 1)]) \<and>
     (validatorDiagnostic (questionLabel 0 @ ''correct_answers cannot be empty'') Error
        \<in> set new \<longleftrightarrow> [JNum (Finite 0), JNum (Finite 1)] = [])"
  using cardinality_of_nonempty_answers
    [of twoAnswersQuestion "''single_choice''" "[JNum (Finite 0), JNum (Finite 1)]" 0 "[]"]
  by (simp add: twoAnswersQuestion_def)

text \<open>
  As first stated the claim fails: the empty array has a length other than 1, and the
  cardinality Error is not produced for it.
\<close>

theorem empty_answers_counterexample:
  "validateParsed None (quizWith emptyAnswersQuestion) []
     = (None, [validatorDiagnostic ''Question 1: correct_answers cannot be empty'' Error]) \<and>
   validatorDiagnostic ''Question 1: single_choice questions must have exactly one correct answer''
       Error
     \<notin> set (snd (validateParsed None (quizWith emptyAnswersQuestion) []))"
  by (simp add: evalDefs emptyAnswersQuestion_def validatorDiagnostic_def)

section \<open>Range of the answers\<close>

text \<open>
  C5 (amended): for every question of a supported type whose \<^verbatim>\<open>options\<close> is an array
  and whose \<^verbatim>\<open>correct_answers\<close> is a non-empty array of values that convert to a
  string, the ``invalid index'' diagnostics of the question match, one to one and in
  order, the answers that are not a number \<open>v\<close> with \<open>0 \<le> v < length opts\<close>: such a
  number produces none, any other answer exactly one Error
  \<^verbatim>\<open>correct_answers contains invalid index <v>. Valid range: 0-<length - 1>\<close>, quoting
  the string conversion of the answer.
\<close>

theorem range_check_matches_invalid_entries:
  assumes supported: "includesType (getProp question ''type'')"
    and options: "getProp question ''options'' = Some (JArr opts)"
    and answers: "getProp question ''correct_answers'' = Some (JArr cas)"
    and nonempty: "cas \<noteq> []"
    and converts: "\<forall>v \<in> set cas. \<exists>s. toStringJS v = Inr s"
  shows "\<exists>new. validateQuestion index question ds = (None, ds @ new) \<and>
           list_all2
             (\<lambda>v d. \<exists>s. toStringJS v = Inr s \<and>
                d = validatorDiagnostic
                      (questionLabel index @ ''correct_answers contains invalid index '' @ s
                         @ ''. Valid range: 0-'' @ intToString (int (length opts) - 1)) Error)
             (filter (\<lambda>v. invalidIndex v (length opts)) cas)
             (filter (isIndexDiagnostic index) new)"
proof -
  obtain t where qtype: "getProp question ''type'' = Some (JStr t)"
    and t: "t = ''multiple_choice'' \<or> t = ''single_choice'' \<or> t = ''true_false''"
    using supported by (auto simp add: includesType_cases)
  have notNull: "question \<noteq> JNull"
    using qtype by auto
  obtain tnew where
    textRun: "validateQuestionText index (getProp question ''text'') ds = ds @ tnew"
    and tnew: "set tnew \<subseteq>
       {validatorDiagnostic (questionLabel index @ ''Missing required property: text'') Error,
        validatorDiagnostic (questionLabel index @ ''text must be a string'') Error}"
    using validateQuestionText_new by blast
  obtain onew where
    opts: "validateOptions index (Some (JStr t)) (Some (JArr opts)) (ds @ tnew)
             = (ds @ tnew) @ onew"
    and onew: "set onew \<subseteq>
       {validatorDiagnostic (questionLabel index @ ''Missing required property: options'') Error,
        validatorDiagnostic (questionLabel index @ ''options must be an array'') Error,
        validatorDiagnostic
          (questionLabel index @ ''true_false questions must have exactly 2 options'') Error,
        validatorDiagnostic
          (questionLabel index @ t @ '' questions must have at least 2 options'') Warning}"
    using validateOptions_new by blast
  define card where
    "card = (if (t = ''single_choice'' \<or> t = ''true_false'') \<and> length cas \<noteq> 1
             then [validatorDiagnostic
                     (questionLabel index @ t
                        @ '' questions must have exactly one correct answer'') Error]
             else [])"
  define post where
    "post = (if t = ''true_false'' \<and> length cas = 1 \<and> hd cas \<noteq> JNum (Finite 0)
                  \<and> hd cas \<noteq> JNum (Finite 1)
             then [validatorDiagnostic
                     (questionLabel index
                        @ ''true_false questions must have correct_answers index 0 or 1'') Error]
             else [])"
  obtain inew where
    ca: "validateCorrectAnswers index (Some (JStr t)) (Some (JArr opts)) (Some (JArr cas))
           ((ds @ tnew) @ onew) = (None, ((ds @ tnew) @ onew) @ card @ inew @ post)"
    and inew: "list_all2
             (\<lambda>v d. \<exists>s. toStringJS v = Inr s \<and>
                d = validatorDiagnostic
                      (questionLabel index @ ''correct_answers contains invalid index '' @ s
                         @ ''. Valid range: 0-'' @ intToString (int (length opts) - 1)) Error)
             (filter (\<lambda>v. invalidIndex v (length opts)) cas) inew"
    using validateCorrectAnswers_without_exception [OF t nonempty converts]
    unfolding card_def post_def by blast
  have run: "validateQuestion index question ds = (None, ds @ (tnew @ onew @ card @ inew @ post))"
    using notNull supported qtype options answers textRun opts ca
    by (simp add: validateQuestion_def validateQuestionType_supported)
  have others: "filter (isIndexDiagnostic index) tnew = []"
    "filter (isIndexDiagnostic index) onew = []"
    "filter (isIndexDiagnostic index) card = []"
    "filter (isIndexDiagnostic index) post = []"
    using tnew onew t by (auto simp add: filter_empty_conv card_def post_def)
  have "\<forall>d \<in> set inew. isIndexDiagnostic index d"
    using list_all2_right_witness [OF inew] by fastforce
  then have "filter (isIndexDiagnostic index) inew = inew"
    by (simp add: filter_id_conv)
  then have "filter (isIndexDiagnostic index) (tnew @ onew @ card @ inew @ post) = inew"
    using others by simp
  then show ?thesis using run inew by auto
qed

theorem range_check_matches_invalid_entries_witness:
  "\<exists>new. validateQuestion 0 mixedAnswersQuestion [] = (None, [] @ new) \<and>
     list_all2
       (\<lambda>v d. \<exists>s. toStringJS v = Inr s \<and>
          d = validatorDiagnostic
                (questionLabel 0 @ ''correct_answers contains invalid index '' @ s
                   @ ''. Valid range: 0-''
                   @ intToString (int (length [JStr ''True'', JStr ''False'', JStr ''Unknown'']) - 1))
                Error)
       (filter (\<lambda>v. invalidIndex v (length [JStr ''True'', JStr ''False'', JStr ''Unknown'']))
          [JNum (Finite 5), JStr ''1'', JNum (Finite 1), JNum (Finite (- 1))])
       (filter (isIndexDiagnostic 0) new)"
  using range_check_matches_invalid_entries
    [of mixedAnswersQuestion "[JStr ''True'', JStr ''False'', JStr ''Unknown'']"
        "[JNum (Finite 5), JStr ''1'', JNum (Finite 1), JNum (Finite (- 1))]" 0 "[]"]
  by (simp add: mixedAnswersQuestion_def supportedTypes_def)

text \<open>
  As first stated the claim fails: the range check is part of the block that runs for
  the three supported types only, so the out-of-range answer \<^verbatim>\<open>5\<close> of an \<^verbatim>\<open>essay\<close>
  question with two options gets no ``invalid index'' diagnostic.
\<close>

theorem unsupported_type_range_counterexample:
  "validateParsed None (quizWith essayChoiceQuestion) []
     = (None, [validatorDiagnostic
         (''Question 1: Invalid question type '' @ [CHR 0x27] @ ''essay'' @ [CHR 0x27]
            @ ''. Supported types: multiple_choice, single_choice, true_false'') Error]) \<and>
   filter (isIndexDiagnostic 0) (snd (validateParsed None (quizWith essayChoiceQuestion) [])) = []"
  by (simp add: evalDefs essayChoiceQuestion_def validatorDiagnostic_def isIndexDiagnostic_def)

text \<open>
  An answer that does not convert to a string is another matter. The object
  \<^verbatim>\<open>{"toString": 1}\<close> is not a number, so the loop builds the ``invalid index'' message
  for it; the conversion raises a TypeError, the loop and the rest of the validation are
  abandoned, and the document gets
  \<^verbatim>\<open>Invalid JSON: Cannot convert object to primitive value\<close> and no ``invalid index''
  diagnostic.
\<close>

lemma object_answer_aborts_range_check:
  "validateParsed None (quizWith objectAnswerQuestion) [] = (Some cannotConvert, []) \<and>
   collectDiagnostics (\<lambda>text. Inr (quizWith objectAnswerQuestion)) None []
     = [validatorDiagnostic ''Invalid JSON: Cannot convert object to primitive value'' Error]"
  by (simp add: evalDefs objectAnswerQuestion_def collectDiagnostics_def)

section \<open>The domain of a true_false answer\<close>

text \<open>
  C8: a \<^verbatim>\<open>true_false\<close> question with two options whose single answer is the object
  \<^verbatim>\<open>{"toString": 1}\<close>, a value that is neither 0 nor 1. The range check raises while it
  builds its message, so the domain check after it is never reached: the document gets
  \<^verbatim>\<open>Invalid JSON: Cannot convert object to primitive value\<close>, and neither the
  ``invalid index'' Error nor \<^verbatim>\<open>true_false questions must have correct_answers index 0
  or 1\<close>.
\<close>

theorem object_answer_aborts_domain_check:
  "validateParsed None (quizWith objectAnswerTrueFalse) [] = (Some cannotConvert, []) \<and>
   collectDiagnostics (\<lambda>text. Inr (quizWith objectAnswerTrueFalse)) None []
     = [validatorDiagnostic ''Invalid JSON: Cannot convert object to primitive value'' Error]"
  by (simp add: evalDefs objectAnswerTrueFalse_def collectDiagnostics_def)

text \<open>
  Whenever the single answer \<open>v\<close> converts to a string, the domain Error is produced
  exactly when \<open>v\<close> is neither the number 0 nor the number 1, and the ``invalid index''
  Error for \<open>v\<close> exactly when \<open>v\<close> is out of range, each independently of the other.
\<close>

lemma true_false_domain_when_conversion_succeeds:
  assumes qtype: "getProp question ''type'' = Some (JStr ''true_false'')"
    and options: "getProp question ''options'' = Some (JArr opts)"
    and answers: "getProp question ''correct_answers'' = Some (JArr [v])"
    and converts: "toStringJS v = Inr s"
  shows "\<exists>new. validateQuestion index question ds = (None, ds @ new) \<and>
           (validatorDiagnostic
              (questionLabel index @ ''true_false questions must have correct_answers index 0 or 1'')
              Error \<in> set new
              \<longleftrightarrow> v \<noteq> JNum (Finite 0) \<and> v \<noteq> JNum (Finite 1)) \<and>
           (validatorDiagnostic
              (questionLabel index @ ''correct_answers contains invalid index '' @ s
                 @ ''. Valid range: 0-'' @ intToString (int (length opts) - 1)) Error \<in> set new
              \<longleftrightarrow> invalidIndex v (length opts))"
proof -
  let ?tf = "validatorDiagnostic
     (questionLabel index @ ''true_false questions must have correct_answers index 0 or 1'') Error"
  let ?range = "validatorDiagnostic
     (questionLabel index @ ''correct_answers contains invalid index '' @ s
        @ ''. Valid range: 0-'' @ intToString (int (length opts) - 1)) Error"
  have supported: "includesType (getProp question ''type'')"
    using qtype by (simp add: supportedTypes_def)
  have notNull: "question \<noteq> JNull"
    using qtype by auto
  obtain tnew where
    textRun: "validateQuestionText index (getProp question ''text'') ds = ds @ tnew"
    and tnew: "set tnew \<subseteq>
       {validatorDiagnostic (questionLabel index @ ''Missing required property: text'') Error,
        validatorDiagnostic (questionLabel index @ ''text must be a string'') Error}"
    using validateQuestionText_new by blast
  obtain onew where
    opts: "validateOptions index (Some (JStr ''true_false'')) (Some (JArr opts)) (ds @ tnew)
             = (ds @ tnew) @ onew"
    and onew: "set onew \<subseteq>
       {validatorDiagnostic (questionLabel index @ ''Missing required property: options'') Error,
        validatorDiagnostic (questionLabel index @ ''options must be an array'') Error,
        validatorDiagnostic
          (questionLabel index @ ''true_false questions must have exactly 2 options'') Error,
        validatorDiagnostic
          (questionLabel index @ ''true_false'' @ '' questions must have at least 2 options'')
          Warning}"
    using validateOptions_new by blast
  define post where
    "post = (if v \<noteq> JNum (Finite 0) \<and> v \<noteq> JNum (Finite 1) then [?tf] else [])"
  have conv: "\<forall>x \<in> set [v]. \<exists>s. toStringJS x = Inr s"
    using converts by simp
  obtain inew where
    ca: "validateCorrectAnswers index (Some (JStr ''true_false'')) (Some (JArr opts))
           (Some (JArr [v])) ((ds @ tnew) @ onew) = (None, ((ds @ tnew) @ onew) @ inew @ post)"
    and inew: "list_all2
             (\<lambda>v d. \<exists>s. toStringJS v = Inr s \<and>
                d = validatorDiagnostic
                      (questionLabel index @ ''correct_answers contains invalid index '' @ s
                         @ ''. Valid range: 0-'' @ intToString (int (length opts) - 1)) Error)
             (filter (\<lambda>v. invalidIndex v (length opts)) [v]) inew"
    using validateCorrectAnswers_without_exception
      [of "''true_false''" "[v]" index opts "(ds @ tnew) @ onew", OF _ _ conv]
    unfolding post_def by auto
  have run: "validateQuestion index question ds = (None, ds @ (tnew @ onew @ inew @ post))"
    using notNull supported qtype options answers textRun opts ca
    by (simp add: validateQuestion_def validateQuestionType_supported)
  have inewCases: "inew = (if invalidIndex v (length opts) then [?range] else [])"
    using inew converts by (auto simp add: list_all2_Cons1)
  have "?tf \<notin> set tnew" "?tf \<notin> set onew" "?tf \<notin> set inew"
    using tnew onew inewCases by auto
  then have tf: "?tf \<in> set (tnew @ onew @ inew @ post)
          \<longleftrightarrow> v \<noteq> JNum (Finite 0) \<and> v \<noteq> JNum (Finite 1)"
    by (simp add: post_def)
  have "?range \<notin> set tnew" "?range \<notin> set onew" "?range \<notin> set post"
    using tnew onew by (auto simp add: post_def)
  then have "?range \<in> set (tnew @ onew @ inew @ post) \<longleftrightarrow> invalidIndex v (length opts)"
    using inewCases by simp
  then show ?thesis using run tf by blast
qed

text \<open>
  Unless \<^verbatim>\<open>correct_answers\<close> is an array of exactly one element, the domain Error is
  not produced.
\<close>

lemma true_false_domain_needs_single_answer:
  assumes supported: "includesType (getProp question ''type'')"
    and len: "length (elements (getProp question ''correct_answers'')) \<noteq> 1"
  shows "\<exists>r new. validateQuestion index question ds = (r, ds @ new) \<and>
           validatorDiagnostic
             (questionLabel index @ ''true_false questions must have correct_answers index 0 or 1'')
             Error \<notin> set new"
proof -
  let ?tf = "validatorDiagnostic
     (questionLabel index @ ''true_false questions must have correct_answers index 0 or 1'') Error"
  obtain t where qtype: "getProp question ''type'' = Some (JStr t)"
    and t: "t = ''multiple_choice'' \<or> t = ''single_choice'' \<or> t = ''true_false''"
    using supported by (auto simp add: includesType_cases)
  have notNull: "question \<noteq> JNull"
    using qtype by auto
  obtain tnew where
    textRun: "validateQuestionText index (getProp question ''text'') ds = ds @ tnew"
    and tnew: "set tnew \<subseteq>
       {validatorDiagnostic (questionLabel index @ ''Missing required property: text'') Error,
        validatorDiagnostic (questionLabel index @ ''text must be a string'') Error}"
    using validateQuestionText_new by blast
  obtain onew where
    opts: "validateOptions index (Some (JStr t)) (getProp question ''options'') (ds @ tnew)
             = (ds @ tnew) @ onew"
    and onew: "set onew \<subseteq>
       {validatorDiagnostic (questionLabel index @ ''Missing required property: options'') Error,
        validatorDiagnostic (questionLabel index @ ''options must be an array'') Error,
        validatorDiagnostic
          (questionLabel index @ ''true_false questions must have exactly 2 options'') Error,
        validatorDiagnostic
          (questionLabel index @ t @ '' questions must have at least 2 options'') Warning}"
    using validateOptions_new by blast
  obtain r cnew where
    ca: "validateCorrectAnswers index (Some (JStr t)) (getProp question ''options'')
           (getProp question ''correct_answers'') ((ds @ tnew) @ onew)
           = (r, ((ds @ tnew) @ onew) @ cnew)"
    and cnew: "?tf \<notin> set cnew"
    using validateCorrectAnswers_domain [OF t len] by blast
  have run: "validateQuestion index question ds = (r, ds @ (tnew @ onew @ cnew))"
    using notNull supported qtype textRun opts ca
    by (simp add: validateQuestion_def validateQuestionType_supported)
  have "?tf \<notin> set tnew" "?tf \<notin> set onew"
    using tnew onew t by auto
  then have "?tf \<notin> set (tnew @ onew @ cnew)"
    using cnew by simp
  then show ?thesis using run by blast
qed

section \<open>Valid documents\<close>

text \<open>
  C7: a document whose metadata has the four fields as non-empty strings and whose only
  question is a \<^verbatim>\<open>multiple_choice\<close> one with a non-empty text, four string options and
  \<^verbatim>\<open>correct_answers: [1]\<close> gets the empty list of diagnostics when no schema is loaded.
  Other properties of the objects, and the order of the properties, do not matter.
\<close>

theorem minimal_valid_document:
  assumes quizFile: "endsWith (fileName doc) ''.quiz''"
    and parsed: "parse (getText doc) = Inr quiz"
    and md: "getProp quiz ''metadata'' = Some metadata"
    and fields: "\<forall>f \<in> set requiredFields. \<exists>s. getProp metadata f = Some (JStr s) \<and> s \<noteq> []"
    and qs: "getProp quiz ''questions'' = Some (JArr [question])"
    and qtype: "getProp question ''type'' = Some (JStr ''multiple_choice'')"
    and qtext: "getProp question ''text'' = Some (JStr t)" "t \<noteq> []"
    and opts: "getProp question ''options'' = Some (JArr [JStr a, JStr b, JStr c, JStr d])"
    and answers: "getProp question ''correct_answers'' = Some (JArr [JNum (Finite 1)])"
  shows "validateQuizFile parse None doc coll (uri doc) = Some []"
proof -
  have notNull: "quiz \<noteq> JNull" "question \<noteq> JNull" "truthy (Some metadata)"
    using md qtype fields by (auto simp add: requiredFields_def dest: getProp_Some_object)
  have meta: "validateMetadata metadata [] = []"
    using fields by (rule validateMetadata_strings)
  have q: "validateQuestion 0 question [] = (None, [])"
    using notNull qtype qtext opts answers
    by (simp add: validateQuestion_def validateQuestionType_def validateQuestionText_def
          validateOptions_def validateCorrectAnswers_def supportedTypes_def typeIs_def)
  have "validateParsed None quiz [] = (None, [])"
    using notNull md qs meta q
    by (simp add: validateParsed_def validateQuestions_def validateSchema_def)
  then show ?thesis
    using quizFile parsed by (simp add: validateQuizFile_def collectDiagnostics_def)
qed

theorem minimal_valid_document_witness:
  "validateQuizFile (\<lambda>text. Inr sampleQuiz) None sampleDocument Map.empty (uri sampleDocument)
     = Some []"
  using minimal_valid_document
    [of sampleDocument "\<lambda>text. Inr sampleQuiz" sampleQuiz sampleMetadata sampleQuestion
        "''What is the capital of France?''" "''Madrid''" "''Paris''" "''Rome''" "''Berlin''"
        Map.empty]
  by (simp add: sampleDocument_def sampleQuiz_def sampleMetadata_def sampleQuestion_def
        endsWith_def requiredFields_def)

text \<open>
  C10: a document whose metadata has the four fields as non-empty strings and whose
  \<^verbatim>\<open>questions\<close> is the empty array gets no diagnostic from the structural checks and the
  question rules: the list is empty when no schema is loaded, and with a schema every
  diagnostic in it comes from the schema validator. No rule asks for a first question.
\<close>

theorem empty_questions_no_diagnostics:
  assumes quizFile: "endsWith (fileName doc) ''.quiz''"
    and parsed: "parse (getText doc) = Inr quiz"
    and md: "getProp quiz ''metadata'' = Some metadata"
    and fields: "\<forall>f \<in> set requiredFields. \<exists>s. getProp metadata f = Some (JStr s) \<and> s \<noteq> []"
    and qs: "getProp quiz ''questions'' = Some (JArr [])"
  shows "validateQuizFile parse None doc coll (uri doc) = Some [] \<and>
         (\<exists>ds. validateQuizFile parse validate doc coll (uri doc) = Some ds \<and>
               (\<forall>d \<in> set ds. source d = ''quiz-schema''))"
proof -
  have notNull: "quiz \<noteq> JNull" "truthy (Some metadata)"
    using md fields by (auto simp add: requiredFields_def dest: getProp_Some_object)
  have meta: "validateMetadata metadata [] = []"
    using fields by (rule validateMetadata_strings)
  have body: "validateParsed v quiz [] = (None, validateSchema v quiz [])" for v
    using notNull md qs meta by (simp add: validateParsed_def validateQuestions_def)
  have stored: "validateQuizFile parse v doc coll (uri doc) = Some (validateSchema v quiz [])" for v
    using quizFile parsed body by (simp add: validateQuizFile_def collectDiagnostics_def)
  obtain new where "validateSchema validate quiz [] = [] @ new"
    and "\<forall>d \<in> set new. source d = ''quiz-schema''"
    using validateSchema_sources by blast
  then show ?thesis
    using stored [of None] stored [of validate] by (simp add: validateSchema_def)
qed

theorem empty_questions_no_diagnostics_witness:
  "validateQuizFile (\<lambda>text. Inr emptyQuiz) None sampleDocument Map.empty (uri sampleDocument)
     = Some [] \<and>
   (\<exists>ds. validateQuizFile (\<lambda>text. Inr emptyQuiz) (Some rejectAll) sampleDocument Map.empty
           (uri sampleDocument) = Some ds \<and> (\<forall>d \<in> set ds. source d = ''quiz-schema''))"
  using empty_questions_no_diagnostics
    [of sampleDocument "\<lambda>text. Inr emptyQuiz" emptyQuiz sampleMetadata Map.empty "Some rejectAll"]
  by (simp add: sampleDocument_def emptyQuiz_def sampleMetadata_def endsWith_def
        requiredFields_def)

section \<open>Determinism\<close>

text \<open>
  The validation reads the schema validator only through its answer on the parsed
  document, and the parser only through its answer on the text.
\<close>

lemma validateSchema_verdict:
  "schemaVerdict validate1 quiz = schemaVerdict validate2 quiz
     \<Longrightarrow> validateSchema validate1 quiz ds = validateSchema validate2 quiz ds"
  by (auto simp add: schemaVerdict_def validateSchema_def split: option.splits)

lemma validateParsed_verdict:
  assumes "schemaVerdict validate1 quiz = schemaVerdict validate2 quiz"
  shows "validateParsed validate1 quiz ds = validateParsed validate2 quiz ds"
proof -
  have "validateSchema validate1 quiz ds' = validateSchema validate2 quiz ds'" for ds'
    using assms by (rule validateSchema_verdict)
  then show ?thesis
    by (simp add: validateParsed_def Let_def split: option.splits prod.splits)
qed

lemma collectDiagnostics_verdict:
  assumes "parse1 text1 = parse2 text2"
    and "\<forall>quiz. parse1 text1 = Inr quiz
           \<longrightarrow> schemaVerdict validate1 quiz = schemaVerdict validate2 quiz"
  shows "collectDiagnostics parse1 validate1 text1 = collectDiagnostics parse2 validate2 text2"
proof (cases "parse1 text1")
  case (Inl m)
  then show ?thesis using assms(1) by (simp add: collectDiagnostics_def)
next
  case (Inr quiz)
  then have "schemaVerdict validate1 quiz = schemaVerdict validate2 quiz"
    using assms(2) by simp
  then have "validateParsed validate1 quiz [] = validateParsed validate2 quiz []"
    by (rule validateParsed_verdict)
  then show ?thesis using Inr assms(1) by (simp add: collectDiagnostics_def)
qed

text \<open>
  C9: the list stored for a quiz file is determined by its text. Two runs on the same
  text store the same list (same length, order, messages and severities) whenever the
  parser gives the same answer on that text and the schema layer is equally available
  and gives the same answer on the parsed document; nothing else counts, neither what
  the collection held before (the entry is replaced, never extended) nor the name or
  uri of the document that carries the text. A second run on top of the first leaves
  the collection as it is, and a run on a second document with the same text, on top of
  the first, stores the first document's list for it.
\<close>

theorem validation_deterministic:
  assumes sameText: "getText d1 = getText d2"
    and quizFiles: "endsWith (fileName d1) ''.quiz''" "endsWith (fileName d2) ''.quiz''"
    and sameParse: "parse1 (getText d1) = parse2 (getText d1)"
    and sameVerdict:
      "\<forall>quiz. parse1 (getText d1) = Inr quiz
          \<longrightarrow> schemaVerdict validate1 quiz = schemaVerdict validate2 quiz"
  shows "validateQuizFile parse1 validate1 d1 c1 (uri d1)
           = validateQuizFile parse2 validate2 d2 c2 (uri d2) \<and>
         validateQuizFile parse1 validate1 d1 (validateQuizFile parse1 validate1 d1 c1)
           = validateQuizFile parse1 validate1 d1 c1 \<and>
         validateQuizFile parse2 validate2 d2 (validateQuizFile parse1 validate1 d1 c1) (uri d2)
           = validateQuizFile parse1 validate1 d1 c1 (uri d1)"
proof -
  have same: "collectDiagnostics parse1 validate1 (getText d1)
                = collectDiagnostics parse2 validate2 (getText d2)"
  proof (rule collectDiagnostics_verdict)
    show "parse1 (getText d1) = parse2 (getText d2)"
      using sameText sameParse by simp
    show "\<forall>quiz. parse1 (getText d1) = Inr quiz
            \<longrightarrow> schemaVerdict validate1 quiz = schemaVerdict validate2 quiz"
      by (rule sameVerdict)
  qed
  show ?thesis
    using quizFiles same by (simp add: validateQuizFile_def)
qed

text \<open>
  An instance with a non-empty list: the first run starts from the empty collection, the
  second is on another document, with another parser and validator, over a collection
  that already holds a diagnostic for that document. Both store the same two
  diagnostics; a validator that appended to the stored list would not.
\<close>

theorem validation_deterministic_witness:
  "validateQuizFile parseAny (Some rejectAll) firstCopy Map.empty (uri firstCopy)
     = Some [validatorDiagnostic ''Question 1: correct_answers cannot be empty'' Error,
             schemaDiagnostic
               \<lparr>instancePath = ''/questions'',
                  schemaMessage = ''must NOT have fewer than 1 items''\<rparr>] \<and>
   staleCollection (uri secondCopy)
     = Some [validatorDiagnostic ''Missing required property: metadata'' Error] \<and>
   validateQuizFile parseSample (Some rejectKnown) secondCopy staleCollection (uri secondCopy)
     = Some [validatorDiagnostic ''Question 1: correct_answers cannot be empty'' Error,
             schemaDiagnostic
               \<lparr>instancePath = ''/questions'',
                  schemaMessage = ''must NOT have fewer than 1 items''\<rparr>] \<and>
   validateQuizFile parseAny (Some rejectAll) firstCopy
       (validateQuizFile parseAny (Some rejectAll) firstCopy Map.empty)
     = validateQuizFile parseAny (Some rejectAll) firstCopy Map.empty \<and>
   validateQuizFile parseSample (Some rejectKnown) secondCopy
       (validateQuizFile parseAny (Some rejectAll) firstCopy Map.empty) (uri secondCopy)
     = Some [validatorDiagnostic ''Question 1: correct_answers cannot be empty'' Error,
             schemaDiagnostic
               \<lparr>instancePath = ''/questions'',
                  schemaMessage = ''must NOT have fewer than 1 items''\<rparr>]"
proof -
  have run: "validateQuizFile parseAny (Some rejectAll) firstCopy Map.empty (uri firstCopy)
     = Some [validatorDiagnostic ''Question 1: correct_answers cannot be empty'' Error,
             schemaDiagnostic
               \<lparr>instancePath = ''/questions'',
                  schemaMessage = ''must NOT have fewer than 1 items''\<rparr>]"
    by (simp add: validateQuizFile_def collectDiagnostics_def evalDefs firstCopy_def parseAny_def
          emptyAnswersQuestion_def rejectAll_def endsWith_def)
  have stale: "staleCollection (uri secondCopy)
     = Some [validatorDiagnostic ''Missing required property: metadata'' Error]"
    by (simp add: staleCollection_def secondCopy_def)
  have "validateQuizFile parseAny (Some rejectAll) firstCopy Map.empty (uri firstCopy)
           = validateQuizFile parseSample (Some rejectKnown) secondCopy staleCollection
               (uri secondCopy) \<and>
         validateQuizFile parseAny (Some rejectAll) firstCopy
             (validateQuizFile parseAny (Some rejectAll) firstCopy Map.empty)
           = validateQuizFile parseAny (Some rejectAll) firstCopy Map.empty \<and>
         validateQuizFile parseSample (Some rejectKnown) secondCopy
             (validateQuizFile parseAny (Some rejectAll) firstCopy Map.empty) (uri secondCopy)
           = validateQuizFile parseAny (Some rejectAll) firstCopy Map.empty (uri firstCopy)"
    by (rule validation_deterministic)
       (simp_all add: firstCopy_def secondCopy_def endsWith_def parseAny_def parseSample_def
          schemaVerdict_def rejectKnown_def)
  then show ?thesis using run stale by simp
qed

end
